theory Spec2Isabelle
  imports Main "HOL-Library.Sublist"
begin

section \<open>Python values used by the client\<close>

text \<open>
  The two clients (\<^verbatim>\<open>mcp_client.py\<close>, the console client, and
  \<^verbatim>\<open>mcp_client_flask.py\<close>, the web client) share the class
  \<^verbatim>\<open>CloudComplianceClient\<close>. Python text is modelled as \<^typ>\<open>string\<close>, each
  \<^typ>\<open>char\<close> read as a code point below 256.

  An exception is a value: its class and the text \<^verbatim>\<open>str(e)\<close> gives. Only classes
  deriving from \<^verbatim>\<open>Exception\<close> are modelled, the ones an
  \<^verbatim>\<open>except Exception\<close> clause catches; interpreter signals such as
  \<^verbatim>\<open>KeyboardInterrupt\<close> are outside the model.
\<close>

datatype exc_class =
  JSONDecodeError | IndexError | AttributeError | RecursionError | ValueError | OtherError

datatype py_exception = PyExc (exc_class: exc_class) (exc_str: string)

text \<open>The values \<^verbatim>\<open>json.loads\<close> returns. A float is held by its literal text.\<close>

datatype json =
  JNull | JBool bool | JInt int | JFloat string | JStr string
  | JArr "json list" | JObj "(string \<times> json) list"

subsection \<open>String operations\<close>

definition nl :: char where
  "nl = CHR 0x0A"

definition squote :: char where
  "squote = CHR 0x27"

text \<open>\<^verbatim>\<open>str.isspace\<close> on one code point below 256.\<close>

definition py_isspace :: "char \<Rightarrow> bool" where
  "py_isspace c = (let n = (of_char c :: nat) in
     (9 \<le> n \<and> n \<le> 13) \<or> (28 \<le> n \<and> n \<le> 32) \<or> n = 133 \<or> n = 160)"

definition lstrip :: "string \<Rightarrow> string" where
  "lstrip s = dropWhile py_isspace s"

definition rstrip :: "string \<Rightarrow> string" where
  "rstrip s = rev (dropWhile py_isspace (rev s))"

text \<open>\<^verbatim>\<open>s.strip()\<close>\<close>

definition strip :: "string \<Rightarrow> string" where
  "strip s = rstrip (lstrip s)"

text \<open>\<^verbatim>\<open>sub in s\<close> for strings.\<close>

fun str_contains :: "string \<Rightarrow> string \<Rightarrow> bool" where
  "str_contains sub [] = (sub = [])"
| "str_contains sub (c # cs) = (prefix sub (c # cs) \<or> str_contains sub cs)"

text \<open>
  The leftmost occurrence of a separator: the text before it and the text after it, or
  \<open>None\<close> when the separator does not occur.
\<close>

fun split_once :: "string \<Rightarrow> string \<Rightarrow> (string \<times> string) option" where
  "split_once sep [] = (if sep = [] then Some ([], []) else None)"
| "split_once sep (c # cs) =
     (if prefix sep (c # cs) then Some ([], drop (length sep) (c # cs))
      else map_option (\<lambda>(b, a). (c # b, a)) (split_once sep cs))"

text \<open>
  \<^verbatim>\<open>s.split(sep, maxsplit)\<close> for a non-empty separator: at most \<open>n\<close> cuts, each at
  the leftmost occurrence in what is left.
\<close>

fun splitn :: "string \<Rightarrow> nat \<Rightarrow> string \<Rightarrow> string list" where
  "splitn sep 0 s = [s]"
| "splitn sep (Suc n) s =
     (case split_once sep s of
        None \<Rightarrow> [s]
      | Some (b, a) \<Rightarrow> b # splitn sep n a)"

text \<open>
  \<^verbatim>\<open>s.split(sep)\<close> has no bound on the cuts; a text of length \<open>k\<close> holds at most
  \<open>k\<close> occurrences of a non-empty separator (lemma \<open>splitn_enough\<close>).
\<close>

definition py_split :: "string \<Rightarrow> nat option \<Rightarrow> string \<Rightarrow> string list" where
  "py_split sep maxsplit s =
     (case maxsplit of None \<Rightarrow> splitn sep (length s) s | Some n \<Rightarrow> splitn sep n s)"

text \<open>\<^verbatim>\<open>xs[i]\<close> for \<open>i \<ge> 0\<close>: \<^verbatim>\<open>IndexError\<close> out of range.\<close>

definition item :: "'a list \<Rightarrow> nat \<Rightarrow> py_exception + 'a" where
  "item xs i =
     (if i < length xs then Inr (xs ! i)
      else Inl (PyExc IndexError ''list index out of range''))"

section \<open>parse\_tool\_call\<close>

definition TOOL_CALL :: string where
  "TOOL_CALL = ''TOOL_CALL:''"

text \<open>
  \<^verbatim>\<open>json.loads\<close> is the standard library's; the parser takes it as the parameter
  \<open>loads\<close>, which returns the decoded value or the exception raised. Only
  \<^verbatim>\<open>json.JSONDecodeError\<close> is caught; any other exception leaves the function.
  The result is \<open>Inr None\<close> for \<^verbatim>\<open>return None\<close>, \<open>Inr (Some (name, arguments))\<close>
  for a returned pair and \<open>Inl e\<close> for an exception that escapes.
\<close>

definition parse_tool_call ::
  "(string \<Rightarrow> py_exception + json) \<Rightarrow> string \<Rightarrow> py_exception + (string \<times> json) option" where
  "parse_tool_call loads llm_response =
     (if str_contains TOOL_CALL llm_response then
        (case item (py_split TOOL_CALL (Some 1) llm_response) 1 of
           Inl e \<Rightarrow> Inl e
         | Inr after \<Rightarrow>
             (let parts = strip after;
                  lines = py_split [nl] (Some 1) parts
              in case item lines 0 of
                   Inl e \<Rightarrow> Inl e
                 | Inr line0 \<Rightarrow>
                     (let tool_line = strip line0
                      in if str_contains ''{'' tool_line then
                           (case item (py_split ''{'' None tool_line) 0 of
                              Inl e \<Rightarrow> Inl e
                            | Inr head \<Rightarrow>
                                (let tool_name = strip head
                                 in case item (py_split ''{'' (Some 1) tool_line) 1 of
                                      Inl e \<Rightarrow> Inl e
                                    | Inr rest \<Rightarrow>
                                        (let json_str = ''{'' @ rest
                                         in case loads json_str of
                                              Inr arguments \<Rightarrow> Inr (Some (tool_name, arguments))
                                            | Inl e \<Rightarrow>
                                                if exc_class e = JSONDecodeError then Inr None
                                                else Inl e)))
                         else Inr (Some (tool_line, JObj [])))))
      else Inr None)"

subsection \<open>The parser's steps in closed form\<close>

text \<open>
  The line the parser works on, from the text that follows the marker: that text is
  stripped first, cut at its first newline, and stripped again.
\<close>

definition tool_line_of :: "string \<Rightarrow> string" where
  "tool_line_of after = strip (takeWhile (\<lambda>c. c \<noteq> nl) (strip after))"

text \<open>What the parser returns for a tool line.\<close>

definition parse_line ::
  "(string \<Rightarrow> py_exception + json) \<Rightarrow> string \<Rightarrow> py_exception + (string \<times> json) option" where
  "parse_line loads tool_line =
     (if CHR ''{'' \<in> set tool_line then
        (case loads (dropWhile (\<lambda>c. c \<noteq> CHR ''{'') tool_line) of
           Inr arguments \<Rightarrow>
             Inr (Some (strip (takeWhile (\<lambda>c. c \<noteq> CHR ''{'') tool_line), arguments))
         | Inl e \<Rightarrow> if exc_class e = JSONDecodeError then Inr None else Inl e)
      else Inr (Some (tool_line, JObj [])))"

text \<open>Tool names of the form \<^verbatim>\<open>[A-Za-z_][A-Za-z0-9_]*\<close>.\<close>

definition name_start :: "char \<Rightarrow> bool" where
  "name_start c = (let n = (of_char c :: nat) in
     (65 \<le> n \<and> n \<le> 90) \<or> (97 \<le> n \<and> n \<le> 122) \<or> n = 95)"

definition name_char :: "char \<Rightarrow> bool" where
  "name_char c = (name_start c \<or> (let n = (of_char c :: nat) in 48 \<le> n \<and> n \<le> 57))"

fun is_identifier :: "string \<Rightarrow> bool" where
  "is_identifier [] = False"
| "is_identifier (c # cs) = (name_start c \<and> list_all name_char cs)"

section \<open>format\_tools\_for\_llm\<close>

text \<open>
  A tool descriptor as the function reads it. \<open>description\<close> is \<open>None\<close> for Python's
  \<^verbatim>\<open>None\<close>, which the f-string prints as \<^verbatim>\<open>None\<close>. \<open>inputSchema\<close> is \<open>None\<close>
  when the attribute is missing or falsy. A schema is a dictionary: \<open>properties\<close> and
  \<open>required\<close> are \<open>None\<close> when the key is absent, and the entries of \<open>properties\<close> are in
  the dictionary's insertion order. The entry of a parameter under \<^verbatim>\<open>'type'\<close> or
  \<^verbatim>\<open>'description'\<close> is held by the text the f-string prints for it. Descriptors are
  taken in this shape, the one the backend's tool list has; on a schema of another shape
  (properties that are not a dictionary of dictionaries) the Python raises.
\<close>

record param_info =
  type_entry :: "string option"
  description_entry :: "string option"

record schema =
  properties :: "(string \<times> param_info) list option"
  required :: "string list option"

record tool =
  name :: string
  description :: "string option"
  inputSchema :: "schema option"

text \<open>\<^verbatim>\<open>d.get(key, default)\<close> on an entry.\<close>

definition get_default :: "'a option \<Rightarrow> 'a \<Rightarrow> 'a" where
  "get_default entry d = (case entry of None \<Rightarrow> d | Some v \<Rightarrow> v)"

definition str_of_optional :: "string option \<Rightarrow> string" where
  "str_of_optional v = (case v of None \<Rightarrow> ''None'' | Some s \<Rightarrow> s)"

text \<open>The body of the inner loop: one parameter line appended to the text so far.\<close>

definition add_param :: "schema \<Rightarrow> string \<Rightarrow> string \<times> param_info \<Rightarrow> string" where
  "add_param schema tools_description p =
     (case p of (param_name, param_info) \<Rightarrow>
        (let param_type = get_default (type_entry param_info) ''string'';
             param_desc = get_default (description_entry param_info) [];
             is_required = (param_name \<in> set (get_default (required schema) []));
             req_marker = (if is_required then '' (required)'' else '' (optional)'')
         in tools_description @ ''    - '' @ param_name @ '' ('' @ param_type @ '')''
              @ req_marker @ '': '' @ param_desc @ [nl]))"

text \<open>The body of the outer loop: one tool appended to the text so far.\<close>

definition add_tool :: "string \<Rightarrow> tool \<Rightarrow> string" where
  "add_tool tools_description t =
     (let d1 = tools_description @ ''- **'' @ name t @ ''**: ''
                 @ str_of_optional (description t) @ [nl];
          d2 = (case inputSchema t of
                  None \<Rightarrow> d1
                | Some schema \<Rightarrow>
                    (case properties schema of
                       None \<Rightarrow> d1
                     | Some props \<Rightarrow>
                         foldl (add_param schema) (d1 @ ''  Parameters:'' @ [nl]) props))
      in d2 @ [nl])"

definition format_tools_for_llm :: "tool list \<Rightarrow> string" where
  "format_tools_for_llm tools = foldl add_tool (''Available tools:'' @ [nl, nl]) tools"

text \<open>The line of one parameter and the block of one tool, on their own.\<close>

definition param_line :: "schema \<Rightarrow> string \<times> param_info \<Rightarrow> string" where
  "param_line schema p = add_param schema [] p"

definition tool_block :: "tool \<Rightarrow> string" where
  "tool_block t = add_tool [] t"

section \<open>call\_mcp\_tool\<close>

text \<open>
  The reply of \<^verbatim>\<open>session.call_tool\<close>, by what the function observes of it: whether
  it has an attribute \<^verbatim>\<open>content\<close> (\<open>None\<close> when it has not), and its own string form.
  A content value is a list of parts, or any other value, held by its truth value and
  its string form. A part has a \<^verbatim>\<open>text\<close> attribute or is of another class, named
  by the \<^verbatim>\<open>AttributeError\<close> that reading \<^verbatim>\<open>.text\<close> raises.
\<close>

datatype content_part = TextContent string | OtherContent string

datatype content_value = ContentList "content_part list" | ContentOther bool string

record tool_result =
  result_content :: "content_value option"
  result_str :: string

definition truthy :: "content_value \<Rightarrow> bool" where
  "truthy c = (case c of ContentList ps \<Rightarrow> ps \<noteq> [] | ContentOther b s \<Rightarrow> b)"

definition is_list :: "content_value \<Rightarrow> bool" where
  "is_list c = (case c of ContentList ps \<Rightarrow> True | ContentOther b s \<Rightarrow> False)"

definition len :: "content_value \<Rightarrow> nat" where
  "len c = (case c of ContentList ps \<Rightarrow> length ps | ContentOther b s \<Rightarrow> 0)"

text \<open>
  \<^verbatim>\<open>str(result.content)\<close>. The function reaches it only for a truthy value that is
  not a list: a truthy list has a length above 0.
\<close>

definition str_of_content :: "content_value \<Rightarrow> string" where
  "str_of_content c = (case c of ContentList ps \<Rightarrow> ''[]'' | ContentOther b s \<Rightarrow> s)"

text \<open>\<^verbatim>\<open>result.content[0].text\<close>, reached only for a list of length above 0.\<close>

definition first_text :: "content_value \<Rightarrow> py_exception + string" where
  "first_text c =
     (case c of
        ContentList (TextContent t # ps) \<Rightarrow> Inr t
      | ContentList (OtherContent cls # ps) \<Rightarrow>
          Inl (PyExc AttributeError
                 ([squote] @ cls @ [squote] @ '' object has no attribute ''
                    @ [squote] @ ''text'' @ [squote]))
      | ContentList [] \<Rightarrow> Inl (PyExc IndexError ''list index out of range'')
      | ContentOther b s \<Rightarrow> Inl (PyExc OtherError ''object is not subscriptable''))"

text \<open>The statements of the \<^verbatim>\<open>try\<close> block after the call has returned.\<close>

definition extract_content :: "tool_result \<Rightarrow> py_exception + string" where
  "extract_content result =
     (case result_content result of
        Some c \<Rightarrow>
          if truthy c then
            (if is_list c \<and> len c > 0 then first_text c else Inr (str_of_content c))
          else Inr (result_str result)
      | None \<Rightarrow> Inr (result_str result))"

definition tool_error_text :: "string \<Rightarrow> py_exception \<Rightarrow> string" where
  "tool_error_text tool_name e = ''Error calling tool '' @ tool_name @ '': '' @ exc_str e"

section \<open>The client and its collaborators\<close>

record message =
  role :: string
  content :: string

record client =
  model_name :: string
  conversation_history :: "message list"
  available_tools :: "tool list"

text \<open>
  The collaborators of a turn. The LLM runtime and the backend answer differently from
  call to call, so each takes the state \<open>'w\<close> of the world outside the client and
  returns the next one. \<open>chat\<close> is \<^verbatim>\<open>ollama.chat(model=..., messages=...)\<close> followed by
  \<^verbatim>\<open>response['message']['content']\<close>: the text, or the exception either step raised.
  \<open>call_tool\<close> is \<^verbatim>\<open>session.call_tool(tool_name, arguments)\<close>. \<open>json_loads\<close> is
  \<^verbatim>\<open>json.loads\<close>.
\<close>

record 'w env =
  chat :: "'w \<Rightarrow> string \<Rightarrow> message list \<Rightarrow> (py_exception + string) \<times> 'w"
  call_tool :: "'w \<Rightarrow> string \<Rightarrow> json \<Rightarrow> (py_exception + tool_result) \<times> 'w"
  json_loads :: "string \<Rightarrow> py_exception + json"

definition call_mcp_tool :: "'w env \<Rightarrow> 'w \<Rightarrow> string \<Rightarrow> json \<Rightarrow> string \<times> 'w" where
  "call_mcp_tool E w tool_name arguments =
     (case call_tool E w tool_name arguments of
        (Inl e, w') \<Rightarrow> (tool_error_text tool_name e, w')
      | (Inr result, w') \<Rightarrow>
          (case extract_content result of
             Inl e \<Rightarrow> (tool_error_text tool_name e, w')
           | Inr response \<Rightarrow> (response, w')))"

definition llm_messages :: "client \<Rightarrow> string \<Rightarrow> string \<Rightarrow> message list" where
  "llm_messages self user_message system_prompt =
     (if system_prompt \<noteq> [] then [\<lparr>role = ''system'', content = system_prompt\<rparr>] else [])
     @ map (\<lambda>msg. \<lparr>role = role msg, content = content msg\<rparr>) (conversation_history self)
     @ [\<lparr>role = ''user'', content = user_message\<rparr>]"

definition llm_error_text :: "py_exception \<Rightarrow> string" where
  "llm_error_text e = ''Error calling LLM: '' @ exc_str e"

definition call_llm :: "'w env \<Rightarrow> 'w \<Rightarrow> client \<Rightarrow> string \<Rightarrow> string \<Rightarrow> string \<times> 'w" where
  "call_llm E w self user_message system_prompt =
     (case chat E w (model_name self) (llm_messages self user_message system_prompt) of
        (Inr llm_response, w') \<Rightarrow> (llm_response, w')
      | (Inl e, w') \<Rightarrow> (llm_error_text e, w'))"

definition system_prompt_of :: "string \<Rightarrow> string" where
  \<open>system_prompt_of tools_info =
     ''You are a helpful cloud compliance assistant. You have access to tools that can check AWS cloud compliance and list resources.''
     @ [nl, nl] @ tools_info @ [nl, nl]
     @ ''When a user asks a question that requires using a tool, respond with:'' @ [nl]
     @ ''TOOL_CALL: tool_name {"param1": "value1", "param2": "value2"}'' @ [nl, nl]
     @ ''For example:'' @ [nl]
     @ ''- If asked to list S3 buckets: TOOL_CALL: list_s3_buckets {}'' @ [nl]
     @ ''- If asked to check compliance: TOOL_CALL: check_resource_compliance {"resourceType": "storage", "standard": "SOC2"}''
     @ [nl, nl]
     @ ''After receiving tool results, provide a helpful natural language explanation to the user.''\<close>

definition follow_up_prompt_of :: "string \<Rightarrow> string \<Rightarrow> string" where
  "follow_up_prompt_of tool_name tool_result =
     ''The tool '' @ [squote] @ tool_name @ [squote] @ '' returned:'' @ [nl] @ tool_result
     @ [nl, nl] @ ''Please explain these results to the user in a helpful way.''"

text \<open>The two appends that end a turn.\<close>

definition commit :: "client \<Rightarrow> string \<Rightarrow> string \<Rightarrow> client" where
  "commit self user_message answer =
     self\<lparr>conversation_history :=
            (conversation_history self @ [\<lparr>role = ''user'', content = user_message\<rparr>])
            @ [\<lparr>role = ''assistant'', content = answer\<rparr>]\<rparr>"

text \<open>
  \<^verbatim>\<open>process_message\<close> of the web client. The result is the returned answer or the
  exception that leaves the function, with the client and the world as they are then.
  A returned pair is truthy, so \<^verbatim>\<open>if tool_call:\<close> holds exactly when the parser
  returned a pair.
\<close>

definition process_message ::
  "'w env \<Rightarrow> 'w \<Rightarrow> client \<Rightarrow> string \<Rightarrow> (py_exception + string) \<times> client \<times> 'w" where
  "process_message E w self user_message =
     (let tools_info = format_tools_for_llm (available_tools self);
          system_prompt = system_prompt_of tools_info
      in case call_llm E w self user_message system_prompt of
           (llm_response, w1) \<Rightarrow>
             (case parse_tool_call (json_loads E) llm_response of
                Inl e \<Rightarrow> (Inl e, self, w1)
              | Inr (Some (tool_name, arguments)) \<Rightarrow>
                  (case call_mcp_tool E w1 tool_name arguments of
                     (tool_result, w2) \<Rightarrow>
                       (let follow_up_prompt = follow_up_prompt_of tool_name tool_result
                        in case call_llm E w2 self follow_up_prompt system_prompt of
                             (final_response, w3) \<Rightarrow>
                               (Inr final_response,
                                commit self user_message final_response, w3)))
              | Inr None \<Rightarrow> (Inr llm_response, commit self user_message llm_response, w1)))"

text \<open>The system prompt of a turn, as \<^verbatim>\<open>process_message\<close> builds it.\<close>

definition turn_prompt :: "client \<Rightarrow> string" where
  "turn_prompt self = system_prompt_of (format_tools_for_llm (available_tools self))"

subsection \<open>One iteration of chat\_loop\<close>

text \<open>\<^verbatim>\<open>str.lower\<close> on one code point below 256.\<close>

definition py_lower :: "char \<Rightarrow> char" where
  "py_lower c = (let n = (of_char c :: nat) in
     if (65 \<le> n \<and> n \<le> 90) \<or> (192 \<le> n \<and> n \<le> 222 \<and> n \<noteq> 215)
     then char_of (n + 32) else c)"

datatype outcome = Goodbye | Skipped | Answered string | Failed py_exception

text \<open>
  The body of the \<^verbatim>\<open>while True\<close> loop of the console client, from the line that
  \<^verbatim>\<open>input\<close> returned. After the two guards its statements are those of
  \<^verbatim>\<open>process_message\<close>, with the same prompts, and the handler
  \<^verbatim>\<open>except Exception\<close> prints the exception and lets the loop go on.
\<close>

definition chat_loop_step ::
  "'w env \<Rightarrow> 'w \<Rightarrow> client \<Rightarrow> string \<Rightarrow> outcome \<times> client \<times> 'w" where
  "chat_loop_step E w self line =
     (let user_input = strip line
      in if map py_lower user_input \<in> set [''exit'', ''quit'', ''bye''] then (Goodbye, self, w)
         else if user_input = [] then (Skipped, self, w)
         else (case process_message E w self user_input of
                 (Inr final_response, self', w') \<Rightarrow> (Answered final_response, self', w')
               | (Inl e, self', w') \<Rightarrow> (Failed e, self', w')))"

section \<open>Collaborators for the examples\<close>

text \<open>
  A world for running turns on concrete inputs: the outcomes the LLM runtime will give,
  in order, and the calls the backend has received.
\<close>

record world =
  script :: "(py_exception + string) list"
  backend_calls :: "(string \<times> json) list"

definition scripted_chat ::
  "world \<Rightarrow> string \<Rightarrow> message list \<Rightarrow> (py_exception + string) \<times> world" where
  "scripted_chat w model messages =
     (case script w of
        [] \<Rightarrow> (Inl (PyExc OtherError ''Failed to connect to Ollama''), w)
      | r # rs \<Rightarrow> (r, w\<lparr>script := rs\<rparr>))"

text \<open>A backend with the one tool \<^verbatim>\<open>list_s3_buckets\<close>.\<close>

definition buckets_backend ::
  "world \<Rightarrow> string \<Rightarrow> json \<Rightarrow> (py_exception + tool_result) \<times> world" where
  "buckets_backend w tool_name arguments =
     (let w' = w\<lparr>backend_calls := backend_calls w @ [(tool_name, arguments)]\<rparr>
      in if tool_name = ''list_s3_buckets''
         then (Inr \<lparr>result_content = Some (ContentList [TextContent ''bucket-a, bucket-b'']),
                    result_str = ''CallToolResult''\<rparr>, w')
         else (Inl (PyExc OtherError (''Unknown tool: '' @ tool_name)), w'))"

text \<open>A backend that gives the same outcome to every call.\<close>

definition fixed_backend ::
  "py_exception + tool_result \<Rightarrow> world \<Rightarrow> string \<Rightarrow> json
     \<Rightarrow> (py_exception + tool_result) \<times> world" where
  "fixed_backend outcome w tool_name arguments =
     (outcome, w\<lparr>backend_calls := backend_calls w @ [(tool_name, arguments)]\<rparr>)"

text \<open>
  \<^verbatim>\<open>json.loads\<close> tabulated on the texts the examples use: two objects, and
  \<^verbatim>\<open>JSONDecodeError\<close> for the texts of the examples that are not JSON.
\<close>

definition sample_loads :: "string \<Rightarrow> py_exception + json" where
  \<open>sample_loads s =
     (if s = ''{}'' then Inr (JObj [])
      else if s = ''{"resourceType": "storage", "standard": "SOC2"}''
      then Inr (JObj [(''resourceType'', JStr ''storage''), (''standard'', JStr ''SOC2'')])
      else Inl (PyExc JSONDecodeError ''Expecting property name enclosed in double quotes''))\<close>

text \<open>
  The same table with one more row: a text that opens a hundred thousand arrays or
  more and closes none is nested deeper than the interpreter's recursion limit allows,
  and \<^verbatim>\<open>json.loads\<close> raises \<^verbatim>\<open>RecursionError\<close> on it.
\<close>

definition deep_loads :: "string \<Rightarrow> py_exception + json" where
  "deep_loads s =
     (if CHR '']'' \<notin> set s \<and> 100000 \<le> length (filter (\<lambda>c. c = CHR ''['') s)
      then Inl (PyExc RecursionError
                  ''maximum recursion depth exceeded while decoding a JSON array from a unicode string'')
      else sample_loads s)"

text \<open>
  The first table with another row: an object whose member is an integer of 5000
  digits. The interpreter converts at most 4300 digits of text to an integer, and
  \<^verbatim>\<open>json.loads\<close> raises \<^verbatim>\<open>ValueError\<close> on it.
\<close>

definition long_int_loads :: "string \<Rightarrow> py_exception + json" where
  \<open>long_int_loads s =
     (if s = ''{"a": '' @ replicate 5000 CHR ''1'' @ ''}''
      then Inl (PyExc ValueError
                  ''Exceeds the limit (4300 digits) for integer string conversion: value has 5000 digits; use sys.set_int_max_str_digits() to increase the limit'')
      else sample_loads s)\<close>

definition env_with ::
  "(world \<Rightarrow> string \<Rightarrow> json \<Rightarrow> (py_exception + tool_result) \<times> world) \<Rightarrow> world env" where
  "env_with backend = \<lparr>chat = scripted_chat, call_tool = backend, json_loads = sample_loads\<rparr>"

definition sample_env :: "world env" where
  "sample_env = env_with buckets_backend"

definition deep_env :: "world env" where
  "deep_env = \<lparr>chat = scripted_chat, call_tool = buckets_backend, json_loads = deep_loads\<rparr>"

definition sample_client :: client where
  "sample_client =
     \<lparr>model_name = ''llama3.2:3b'', conversation_history = [],
      available_tools =
        [\<lparr>name = ''list_s3_buckets'', description = Some ''List all S3 buckets'',
          inputSchema = None\<rparr>]\<rparr>"

section \<open>Properties of the string operations\<close>

lemma split_once_decomp: "split_once sep s = Some (b, a) \<Longrightarrow> s = b @ sep @ a"
proof (induction s arbitrary: b)
  case Nil
  then show ?case by (simp split: if_splits)
next
  case (Cons c cs)
  show ?case
  proof (cases "prefix sep (c # cs)")
    case True
    with Cons.prems have "b = []" "a = drop (length sep) (c # cs)" by simp_all
    moreover from True obtain r where "c # cs = sep @ r" by (auto simp: prefix_def)
    ultimately show ?thesis by simp
  next
    case False
    with Cons.prems obtain b' where "split_once sep cs = Some (b', a)" "b = c # b'"
      by auto
    with Cons.IH show ?thesis by simp
  qed
qed

lemma str_contains_split_once: "str_contains sep s \<longleftrightarrow> split_once sep s \<noteq> None"
  by (induction s) auto

lemma str_contains_iff: "str_contains sub s \<longleftrightarrow> (\<exists>ps ss. s = ps @ sub @ ss)"
proof (induction s)
  case Nil
  then show ?case by simp
next
  case (Cons c cs)
  show ?case
  proof
    assume "str_contains sub (c # cs)"
    then consider "prefix sub (c # cs)" | "str_contains sub cs" by auto
    then show "\<exists>ps ss. c # cs = ps @ sub @ ss"
    proof cases
      case 1
      then obtain r where "c # cs = sub @ r" by (auto simp: prefix_def)
      then have "c # cs = [] @ sub @ r" by simp
      then show ?thesis by blast
    next
      case 2
      with Cons.IH obtain ps ss where "cs = ps @ sub @ ss" by blast
      then have "c # cs = (c # ps) @ sub @ ss" by simp
      then show ?thesis by blast
    qed
  next
    assume "\<exists>ps ss. c # cs = ps @ sub @ ss"
    then obtain ps ss where eq: "c # cs = ps @ sub @ ss" by blast
    show "str_contains sub (c # cs)"
    proof (cases ps)
      case Nil
      with eq have "prefix sub (c # cs)" unfolding prefix_def by auto
      then show ?thesis by simp
    next
      case (Cons p ps')
      with eq have "cs = ps' @ sub @ ss" by simp
      with Cons.IH show ?thesis by auto
    qed
  qed
qed

lemma split_once_prefix: "split_once sep (sep @ r) = Some ([], r)"
proof (cases "sep @ r")
  case Nil
  then show ?thesis by simp
next
  case (Cons x xs)
  have "prefix sep (x # xs)" unfolding Cons[symmetric] by simp
  moreover have "drop (length sep) (x # xs) = r" unfolding Cons[symmetric] by simp
  ultimately show ?thesis unfolding Cons by simp
qed

lemma split_once_leftmost:
  "split_once sep s = Some (b, a) \<Longrightarrow> s = b' @ sep @ a' \<Longrightarrow> length b \<le> length b'"
proof (induction s arbitrary: b b')
  case Nil
  then show ?case by (simp split: if_splits)
next
  case (Cons c cs)
  show ?case
  proof (cases "prefix sep (c # cs)")
    case True
    with Cons.prems(1) show ?thesis by simp
  next
    case False
    with Cons.prems(1) obtain b0 where b0: "split_once sep cs = Some (b0, a)" "b = c # b0"
      by auto
    from False Cons.prems(2) have "b' \<noteq> []" by (auto simp: prefix_def)
    with Cons.prems(2) obtain b1 where b1: "b' = c # b1" "cs = b1 @ sep @ a'"
      by (cases b') auto
    from Cons.IH[OF b0(1) b1(2)] b0(2) b1(1) show ?thesis by simp
  qed
qed

lemma split_once_shorter:
  "sep \<noteq> [] \<Longrightarrow> split_once sep s = Some (b, a) \<Longrightarrow> length a < length s"
  by (drule split_once_decomp) (cases sep; simp)

lemma splitn_fuel:
  "sep \<noteq> [] \<Longrightarrow> length s \<le> n \<Longrightarrow> length s \<le> m \<Longrightarrow> splitn sep n s = splitn sep m s"
proof (induction n arbitrary: s m)
  case 0
  then show ?case by (cases m) simp_all
next
  case (Suc n)
  show ?case
  proof (cases m)
    case 0
    with Suc.prems show ?thesis by simp
  next
    case (Suc m')
    show ?thesis
    proof (cases "split_once sep s")
      case None
      with \<open>m = Suc m'\<close> show ?thesis by simp
    next
      case (Some ba)
      obtain b a where ba: "ba = (b, a)" by (cases ba)
      with Some Suc.prems(1) have "length a < length s" by (auto dest: split_once_shorter)
      with Suc.prems \<open>m = Suc m'\<close> have "length a \<le> n" "length a \<le> m'" by simp_all
      with Suc.IH[OF Suc.prems(1)] have "splitn sep n a = splitn sep m' a" by blast
      with Some ba \<open>m = Suc m'\<close> show ?thesis by simp
    qed
  qed
qed

lemma splitn_enough:
  "sep \<noteq> [] \<Longrightarrow> length s \<le> n \<Longrightarrow> py_split sep None s = splitn sep n s"
  using splitn_fuel[of sep s "length s" n] by (simp add: py_split_def)

lemma takeWhile_notin: "c \<notin> set s \<Longrightarrow> takeWhile (\<lambda>x. x \<noteq> c) s = s"
  by (induction s) auto

lemma split_once_char:
  "split_once [c] s =
     (if c \<in> set s then Some (takeWhile (\<lambda>x. x \<noteq> c) s, tl (dropWhile (\<lambda>x. x \<noteq> c) s)) else None)"
  by (induction s) auto

lemma str_contains_char: "str_contains [c] s \<longleftrightarrow> c \<in> set s"
  by (induction s) auto

lemma item_split_marker:
  "split_once sep s = Some (b, a) \<Longrightarrow> item (py_split sep (Some 1) s) 1 = Inr a"
  by (simp add: py_split_def item_def)

lemma item_split_first_char:
  "item (py_split [c] (Some 1) s) 0 = Inr (takeWhile (\<lambda>x. x \<noteq> c) s)"
  by (auto simp: py_split_def item_def split_once_char takeWhile_notin)

lemma splitn_hd_char: "0 < n \<Longrightarrow> hd (splitn [c] n s) = takeWhile (\<lambda>x. x \<noteq> c) s"
  by (cases n) (auto simp: split_once_char takeWhile_notin)

lemma splitn_nonempty: "splitn sep n s \<noteq> []"
  by (cases n) (auto split: option.splits)

lemma item_split_all_char:
  "item (py_split [c] None s) 0 = Inr (takeWhile (\<lambda>x. x \<noteq> c) s)"
proof (cases s)
  case Nil
  then show ?thesis by (simp add: py_split_def item_def)
next
  case (Cons x xs)
  then have "0 < length s" by simp
  then have "hd (splitn [c] (length s) s) = takeWhile (\<lambda>x. x \<noteq> c) s"
    by (rule splitn_hd_char)
  moreover have "splitn [c] (length s) s \<noteq> []" by (rule splitn_nonempty)
  ultimately show ?thesis
    by (simp add: py_split_def item_def hd_conv_nth)
qed

lemma item_split_rest_char:
  "c \<in> set s \<Longrightarrow> item (py_split [c] (Some 1) s) 1 = Inr (tl (dropWhile (\<lambda>x. x \<noteq> c) s))"
  by (simp add: py_split_def item_def split_once_char)

lemma cons_tl_dropWhile:
  "c \<in> set s \<Longrightarrow> c # tl (dropWhile (\<lambda>x. x \<noteq> c) s) = dropWhile (\<lambda>x. x \<noteq> c) s"
  by (induction s) auto

subsection \<open>Stripping, and the parser in closed form\<close>


lemma lstrip_spaces: "list_all py_isspace ws \<Longrightarrow> lstrip (ws @ s) = lstrip s"
  by (induction ws) (simp_all add: lstrip_def)

lemma rstrip_spaces: "list_all py_isspace ws \<Longrightarrow> rstrip (s @ ws) = rstrip s"
proof -
  assume "list_all py_isspace ws"
  then have "list_all py_isspace (rev ws)" by (simp add: list_all_iff)
  then have "dropWhile py_isspace (rev ws @ rev s) = dropWhile py_isspace (rev s)"
    by (induction "rev ws") (simp_all add: list_all_iff dropWhile_append)
  then show ?thesis by (simp add: rstrip_def)
qed

lemma rstrip_decomp: "\<exists>ws. list_all py_isspace ws \<and> s = rstrip s @ ws"
proof -
  let ?ws = "rev (takeWhile py_isspace (rev s))"
  have "rstrip s @ ?ws = rev (takeWhile py_isspace (rev s) @ dropWhile py_isspace (rev s))"
    by (simp only: rstrip_def rev_append)
  also have "\<dots> = s" by simp
  finally have "s = rstrip s @ ?ws" by simp
  moreover have "list_all py_isspace ?ws"
    by (simp add: list_all_iff) (meson set_takeWhileD)
  ultimately show ?thesis by blast
qed

lemma lstrip_id: "s = [] \<or> \<not> py_isspace (hd s) \<Longrightarrow> lstrip s = s"
  by (cases s) (auto simp: lstrip_def)

lemma rstrip_id: "s = [] \<or> \<not> py_isspace (last s) \<Longrightarrow> rstrip s = s"
proof (cases s rule: rev_cases)
  case Nil
  then show ?thesis by (simp add: rstrip_def)
next
  case (snoc xs x)
  assume "s = [] \<or> \<not> py_isspace (last s)"
  with snoc show ?thesis by (simp add: rstrip_def)
qed

lemma lstrip_hd: "lstrip s \<noteq> [] \<Longrightarrow> \<not> py_isspace (hd (lstrip s))"
  unfolding lstrip_def by (rule hd_dropWhile)


lemma strip_id: "s \<noteq> [] \<Longrightarrow> \<not> py_isspace (hd s) \<Longrightarrow> \<not> py_isspace (last s) \<Longrightarrow> strip s = s"
  by (simp add: strip_def lstrip_id rstrip_id)

lemma strip_spaces: "list_all py_isspace ws \<Longrightarrow> strip ws = []"
proof -
  assume "list_all py_isspace ws"
  then have "lstrip ws = []" by (simp add: lstrip_def list_all_iff)
  then show ?thesis by (simp add: strip_def rstrip_def)
qed

lemma strip_append_spaces: "list_all py_isspace ws \<Longrightarrow> strip (s @ ws) = strip s"
proof (cases "list_all py_isspace s")
  case True
  assume "list_all py_isspace ws"
  with True have "list_all py_isspace (s @ ws)" by simp
  then have "strip (s @ ws) = []" by (rule strip_spaces)
  moreover from True have "strip s = []" by (rule strip_spaces)
  ultimately show ?thesis by simp
next
  case False
  assume ws: "list_all py_isspace ws"
  from False have "lstrip (s @ ws) = lstrip s @ ws"
    by (auto simp: lstrip_def list_all_iff dropWhile_append1)
  with ws show ?thesis by (simp add: strip_def rstrip_spaces)
qed

lemma strip_prepend_spaces: "list_all py_isspace ws \<Longrightarrow> strip (ws @ s) = strip s"
  by (simp add: strip_def lstrip_spaces)

lemma strip_takeWhile_spaces:
  assumes "list_all py_isspace ws"
  shows "strip (takeWhile (\<lambda>c. c \<noteq> nl) (a @ ws)) = strip (takeWhile (\<lambda>c. c \<noteq> nl) a)"
proof (cases "nl \<in> set a")
  case True
  then show ?thesis by (auto simp: takeWhile_append1)
next
  case False
  then have a: "takeWhile (\<lambda>c. c \<noteq> nl) a = a"
    by (rule takeWhile_notin)
  from False have "takeWhile (\<lambda>c. c \<noteq> nl) (a @ ws) = a @ takeWhile (\<lambda>c. c \<noteq> nl) ws"
    by (intro takeWhile_append2) auto
  moreover have "list_all py_isspace (takeWhile (\<lambda>c. c \<noteq> nl) ws)"
    using assms by (auto simp: list_all_iff dest: set_takeWhileD)
  ultimately show ?thesis
    by (simp add: strip_append_spaces a)
qed

lemma strip_takeWhile_rstrip:
  "strip (takeWhile (\<lambda>c. c \<noteq> nl) (rstrip x)) = strip (takeWhile (\<lambda>c. c \<noteq> nl) x)"
proof -
  define a where "a = rstrip x"
  obtain ws where ws: "list_all py_isspace ws" and x: "x = a @ ws"
    unfolding a_def using rstrip_decomp by blast
  have "strip (takeWhile (\<lambda>c. c \<noteq> nl) x) = strip (takeWhile (\<lambda>c. c \<noteq> nl) (a @ ws))"
    by (subst x) (rule refl)
  also from ws have "\<dots> = strip (takeWhile (\<lambda>c. c \<noteq> nl) a)"
    by (rule strip_takeWhile_spaces)
  finally show ?thesis by (simp add: a_def)
qed

lemma tool_line_of_lstrip:
  "tool_line_of after = strip (takeWhile (\<lambda>c. c \<noteq> nl) (lstrip after))"
  by (simp add: tool_line_of_def strip_def[of after] strip_takeWhile_rstrip)

lemma parse_tool_call_eq:
  "parse_tool_call loads s =
     (case split_once TOOL_CALL s of
        None \<Rightarrow> Inr None
      | Some (b, after) \<Rightarrow> parse_line loads (tool_line_of after))"
proof (cases "split_once TOOL_CALL s")
  case None
  then have "\<not> str_contains TOOL_CALL s" by (simp add: str_contains_split_once)
  with None show ?thesis by (simp add: parse_tool_call_def)
next
  case (Some ba)
  obtain b after where ba: "ba = (b, after)" by (cases ba)
  from Some have c: "str_contains TOOL_CALL s" by (simp add: str_contains_split_once)
  from Some ba have "split_once TOOL_CALL s = Some (b, after)" by simp
  then have i: "item (py_split TOOL_CALL (Some 1) s) 1 = Inr after"
    by (rule item_split_marker)
  have br: "''{'' = [CHR ''{'']" by simp
  show ?thesis
  proof (cases "CHR ''{'' \<in> set (tool_line_of after)")
    case True
    then show ?thesis
      using Some ba c i
      by (simp add: parse_tool_call_def Let_def item_split_first_char item_split_all_char
          item_split_rest_char str_contains_char cons_tl_dropWhile parse_line_def
          tool_line_of_def[symmetric] del: One_nat_def)
  next
    case False
    then show ?thesis
      using Some ba c i
      by (simp add: parse_tool_call_def Let_def item_split_first_char str_contains_char
          parse_line_def tool_line_of_def[symmetric] del: One_nat_def)
  qed
qed

section \<open>The parser: claims C8 and C2\<close>

lemmas str_eval =
  TOOL_CALL_def tool_line_of_def strip_def lstrip_def rstrip_def py_isspace_def nl_def

lemma name_char_facts:
  assumes "name_char c"
  shows "\<not> py_isspace c" and "c \<noteq> nl" and "c \<noteq> CHR ''{''"
  using assms by (auto simp: name_char_def name_start_def py_isspace_def nl_def Let_def)

lemma identifier_facts:
  assumes "is_identifier n"
  shows "n \<noteq> []" and "\<not> py_isspace (hd n)" and "\<not> py_isspace (last n)"
    and "nl \<notin> set n" and "CHR ''{'' \<notin> set n"
proof -
  from assms obtain c cs where n: "n = c # cs" and c: "name_start c" and cs: "list_all name_char cs"
    by (cases n) auto
  from c have "name_char c" by (simp add: name_char_def)
  with cs have all: "\<forall>x\<in>set n. name_char x" by (simp add: n list_all_iff)
  show "n \<noteq> []" by (simp add: n)
  then have "hd n \<in> set n" "last n \<in> set n" by simp_all
  with all show "\<not> py_isspace (hd n)" "\<not> py_isspace (last n)"
    by (blast dest: name_char_facts(1))+
  from all show "nl \<notin> set n" "CHR ''{'' \<notin> set n"
    by (blast dest: name_char_facts)+
qed





lemma parse_tool_call_encoded:
  assumes "is_identifier n"
    and "enc = CHR ''{'' # body @ ''}''"
    and "nl \<notin> set body"
  shows "parse_tool_call loads (''TOOL_CALL: '' @ n @ '' '' @ enc)
     = (case loads enc of
          Inr a \<Rightarrow> Inr (Some (n, a))
        | Inl e \<Rightarrow> if exc_class e = JSONDecodeError then Inr None else Inl e)"
proof -
  note idf = identifier_facts[OF assms(1)]
  let ?after = "'' '' @ n @ '' '' @ enc"
  let ?line = "n @ '' '' @ enc"
  have "''TOOL_CALL: '' @ n @ '' '' @ enc = TOOL_CALL @ ?after"
    by (simp add: TOOL_CALL_def)
  then have s: "split_once TOOL_CALL (''TOOL_CALL: '' @ n @ '' '' @ enc) = Some ([], ?after)"
    by (simp only: split_once_prefix)
  have sp: "py_isspace CHR '' ''" by (simp add: py_isspace_def)
  have "lstrip ?after = ?line"
    using idf(1,2) sp by (cases n) (simp_all add: lstrip_def)
  moreover have "nl \<notin> set ?line"
    using idf(4) assms(2,3) by (simp add: nl_def)
  ultimately have "takeWhile (\<lambda>c. c \<noteq> nl) (lstrip ?after) = ?line"
    by (simp add: takeWhile_notin)
  moreover have "strip ?line = ?line"
  proof (rule strip_id)
    show "?line \<noteq> []" by simp
    show "\<not> py_isspace (hd ?line)" using idf(1,2) by simp
    show "\<not> py_isspace (last ?line)" using assms(2) by (simp add: py_isspace_def)
  qed
  ultimately have l: "tool_line_of ?after = ?line"
    by (simp add: tool_line_of_lstrip)
  have br: "CHR ''{'' \<in> set ?line" using assms(2) by simp
  have nb: "\<And>x. x \<in> set n \<Longrightarrow> x \<noteq> CHR ''{''" using idf(5) by auto
  have tw: "takeWhile (\<lambda>c. c \<noteq> CHR ''{'') ?line = n @ '' ''"
    using assms(2) by (simp add: takeWhile_append2[OF nb])
  have dw: "dropWhile (\<lambda>c. c \<noteq> CHR ''{'') ?line = enc"
    using assms(2) by (simp add: dropWhile_append2[OF nb])
  have "strip (n @ '' '') = strip n"
    by (rule strip_append_spaces) (simp add: sp)
  also have "\<dots> = n" using idf(1,2,3) by (rule strip_id)
  finally have nm: "strip (n @ '' '') = n" .
  show ?thesis
    using s l br tw dw nm
    by (simp add: parse_tool_call_eq parse_line_def del: append.simps split: sum.splits)
qed

text \<open>
  C2, as stated, fails: the text of a JSON object is not always decoded. On an object
  whose member is an integer of 5000 digits the decoder raises \<^verbatim>\<open>ValueError\<close>, which
  the parser does not catch, so the parser raises where the claim has it return the
  pair.
\<close>

theorem parse_tool_call_round_trip_counterexample:
  \<open>is_identifier ''f''
   \<and> nl \<notin> set (''"a": '' @ replicate 5000 CHR ''1'')
   \<and> parse_tool_call long_int_loads
        (''TOOL_CALL: '' @ ''f'' @ '' '' @ (CHR ''{'' # (''"a": '' @ replicate 5000 CHR ''1'') @ ''}''))
      = Inl (PyExc ValueError
          ''Exceeds the limit (4300 digits) for integer string conversion: value has 5000 digits; use sys.set_int_max_str_digits() to increase the limit'')\<close>
proof -
  let ?body = \<open>''"a": '' @ replicate 5000 CHR ''1''\<close>
  have i: "is_identifier ''f''" by (simp add: name_start_def)
  have b: "nl \<notin> set ?body" by (simp add: nl_def)
  have d: "long_int_loads (CHR ''{'' # ?body @ ''}'') = Inl (PyExc ValueError
          ''Exceeds the limit (4300 digits) for integer string conversion: value has 5000 digits; use sys.set_int_max_str_digits() to increase the limit'')"
    by (simp add: long_int_loads_def)
  have "parse_tool_call long_int_loads (''TOOL_CALL: '' @ ''f'' @ '' '' @ (CHR ''{'' # ?body @ ''}''))
      = (case long_int_loads (CHR ''{'' # ?body @ ''}'') of
          Inr a \<Rightarrow> Inr (Some (''f'', a))
        | Inl e \<Rightarrow> if exc_class e = JSONDecodeError then Inr None else Inl e)"
    using i refl b by (rule parse_tool_call_encoded)
  also have "\<dots> = Inl (PyExc ValueError
          ''Exceeds the limit (4300 digits) for integer string conversion: value has 5000 digits; use sys.set_int_max_str_digits() to increase the limit'')"
    by (simp only: d sum.case py_exception.sel exc_class.simps if_False)
  finally show ?thesis using i b by (intro conjI)
qed

text \<open>
  C2, amended: for a tool name \<open>n\<close> of the form \<^verbatim>\<open>[A-Za-z_][A-Za-z0-9_]*\<close> and the
  one-line text \<open>enc\<close> of a JSON object, the parser applied to
  \<^verbatim>\<open>"TOOL_CALL: " + n + " " + enc\<close> hands exactly \<open>enc\<close> to the decoder: when the
  decoder returns \<open>a\<close> the parser returns the pair of \<open>n\<close> and \<open>a\<close>; when the decoder
  raises \<^verbatim>\<open>JSONDecodeError\<close> the parser returns nothing; when the decoder raises
  another exception the parser raises it.
\<close>

theorem parse_tool_call_round_trip:
  assumes "is_identifier n"
    and "enc = CHR ''{'' # body @ ''}''"
    and "nl \<notin> set body"
  shows "(loads enc = Inr a \<longrightarrow>
            parse_tool_call loads (''TOOL_CALL: '' @ n @ '' '' @ enc) = Inr (Some (n, a)))
     \<and> (loads enc = Inl e \<longrightarrow> exc_class e = JSONDecodeError \<longrightarrow>
            parse_tool_call loads (''TOOL_CALL: '' @ n @ '' '' @ enc) = Inr None)
     \<and> (loads enc = Inl e \<longrightarrow> exc_class e \<noteq> JSONDecodeError \<longrightarrow>
            parse_tool_call loads (''TOOL_CALL: '' @ n @ '' '' @ enc) = Inl e)"
  unfolding parse_tool_call_encoded[OF assms] by auto

theorem parse_tool_call_round_trip_witness:
  \<open>is_identifier ''check_resource_compliance''
   \<and> nl \<notin> set ''"resourceType": "storage", "standard": "SOC2"''
   \<and> sample_loads ''{"resourceType": "storage", "standard": "SOC2"}''
       = Inr (JObj [(''resourceType'', JStr ''storage''), (''standard'', JStr ''SOC2'')])
   \<and> parse_tool_call sample_loads
        ''TOOL_CALL: check_resource_compliance {"resourceType": "storage", "standard": "SOC2"}''
      = Inr (Some (''check_resource_compliance'',
                   JObj [(''resourceType'', JStr ''storage''), (''standard'', JStr ''SOC2'')]))
   \<and> sample_loads ''{"resourceType": storage}''
       = Inl (PyExc JSONDecodeError ''Expecting property name enclosed in double quotes'')
   \<and> parse_tool_call sample_loads ''TOOL_CALL: check_resource_compliance {"resourceType": storage}''
      = Inr None\<close>
proof -
  let ?n = "''check_resource_compliance''"
  let ?body = \<open>''"resourceType": "storage", "standard": "SOC2"''\<close>
  let ?bad = \<open>''"resourceType": storage''\<close>
  let ?a = "JObj [(''resourceType'', JStr ''storage''), (''standard'', JStr ''SOC2'')]"
  let ?e = "PyExc JSONDecodeError ''Expecting property name enclosed in double quotes''"
  have i: "is_identifier ?n"
    by (simp add: name_start_def name_char_def)
  have b: "nl \<notin> set ?body" and b': "nl \<notin> set ?bad" by (simp_all add: nl_def)
  have d: "sample_loads (CHR ''{'' # ?body @ ''}'') = Inr ?a"
    by (simp add: sample_loads_def)
  have d': "sample_loads (CHR ''{'' # ?bad @ ''}'') = Inl ?e"
    by (simp add: sample_loads_def)
  from parse_tool_call_round_trip[of ?n "CHR ''{'' # ?body @ ''}''" ?body sample_loads ?a, OF i refl b] d
  have 1: "parse_tool_call sample_loads (''TOOL_CALL: '' @ ?n @ '' '' @ (CHR ''{'' # ?body @ ''}''))
      = Inr (Some (?n, ?a))"
    by blast
  from parse_tool_call_round_trip[of ?n "CHR ''{'' # ?bad @ ''}''" ?bad sample_loads _ ?e, OF i refl b'] d'
  have 2: "parse_tool_call sample_loads (''TOOL_CALL: '' @ ?n @ '' '' @ (CHR ''{'' # ?bad @ ''}''))
      = Inr None"
    by simp
  from i b d d' 1 2 show ?thesis by simp
qed

section \<open>The parser: claim C6\<close>

lemma first_line_lstrip:
  "lstrip (takeWhile (\<lambda>c. c \<noteq> nl) (lstrip s)) = takeWhile (\<lambda>c. c \<noteq> nl) (lstrip s)"
proof (rule lstrip_id)
  show "takeWhile (\<lambda>c. c \<noteq> nl) (lstrip s) = []
      \<or> \<not> py_isspace (hd (takeWhile (\<lambda>c. c \<noteq> nl) (lstrip s)))"
  proof (cases "lstrip s")
    case Nil
    then show ?thesis by simp
  next
    case (Cons c cs)
    with lstrip_hd[of s] have "\<not> py_isspace c" by simp
    then show ?thesis by (simp add: Cons)
  qed
qed

lemma tool_line_of_first_line:
  "tool_line_of (takeWhile (\<lambda>c. c \<noteq> nl) (lstrip after)) = tool_line_of after"
  by (simp add: tool_line_of_lstrip first_line_lstrip)

text \<open>
  C6, as stated, fails: the text after the marker is stripped before it is cut at a
  newline, so a newline that follows the marker at once does not end the invocation,
  and the tool name is read from the text after it. Cutting that text at the newline
  gives another result.
\<close>

theorem parse_tool_call_first_line_counterexample:
  "parse_tool_call sample_loads (''TOOL_CALL:'' @ [nl] @ ''list_s3_buckets'')
     = Inr (Some (''list_s3_buckets'', JObj []))
   \<and> takeWhile (\<lambda>c. c \<noteq> nl) ([nl] @ ''list_s3_buckets'') = []
   \<and> parse_tool_call sample_loads (''TOOL_CALL:'' @ []) = Inr (Some ([], JObj []))"
proof -
  have "split_once TOOL_CALL (''TOOL_CALL:'' @ [nl] @ ''list_s3_buckets'')
      = Some ([], [nl] @ ''list_s3_buckets'')"
    by (simp add: TOOL_CALL_def nl_def)
  moreover have "tool_line_of ([nl] @ ''list_s3_buckets'') = ''list_s3_buckets''"
    by (simp add: str_eval)
  moreover have "split_once TOOL_CALL (''TOOL_CALL:'' @ []) = Some ([], [])"
    by (simp add: TOOL_CALL_def)
  moreover have "tool_line_of [] = []"
    by (simp add: str_eval)
  ultimately show ?thesis
    by (simp add: parse_tool_call_eq parse_line_def)
qed

text \<open>
  C6, amended: when the text holds the marker, the parser works on the first line of
  what follows the first occurrence of the marker once the whitespace that leads it,
  newlines included, is dropped: the result is the one for the marker followed by that
  line alone, so nothing after the newline that ends the line has a part in it.
\<close>

theorem parse_tool_call_first_line:
  assumes "split_once TOOL_CALL text = Some (before, after)"
  shows "parse_tool_call loads text
     = parse_tool_call loads (TOOL_CALL @ takeWhile (\<lambda>c. c \<noteq> nl) (lstrip after))"
proof -
  have "split_once TOOL_CALL (TOOL_CALL @ takeWhile (\<lambda>c. c \<noteq> nl) (lstrip after))
      = Some ([], takeWhile (\<lambda>c. c \<noteq> nl) (lstrip after))"
    by (rule split_once_prefix)
  with assms show ?thesis
    by (simp add: parse_tool_call_eq tool_line_of_first_line)
qed

theorem parse_tool_call_first_line_witness:
  "split_once TOOL_CALL
       (''I will use TOOL_CALL: '' @ [nl] @ ''  list_s3_buckets {}'' @ [nl] @ ''to list {them}.'')
     = Some (''I will use '', '' '' @ [nl] @ ''  list_s3_buckets {}'' @ [nl] @ ''to list {them}.'')
   \<and> parse_tool_call sample_loads
       (''I will use TOOL_CALL: '' @ [nl] @ ''  list_s3_buckets {}'' @ [nl] @ ''to list {them}.'')
     = parse_tool_call sample_loads (''TOOL_CALL:'' @ ''list_s3_buckets {}'')
   \<and> parse_tool_call sample_loads (''TOOL_CALL:'' @ ''list_s3_buckets {}'')
     = Inr (Some (''list_s3_buckets'', JObj []))"
proof -
  let ?after = "'' '' @ [nl] @ ''  list_s3_buckets {}'' @ [nl] @ ''to list {them}.''"
  let ?text = "''I will use TOOL_CALL: '' @ [nl] @ ''  list_s3_buckets {}'' @ [nl] @ ''to list {them}.''"
  have s: "split_once TOOL_CALL ?text = Some (''I will use '', ?after)"
    by (simp add: TOOL_CALL_def)
  have l: "TOOL_CALL @ takeWhile (\<lambda>c. c \<noteq> nl) (lstrip ?after) = ''TOOL_CALL:'' @ ''list_s3_buckets {}''"
    by (simp add: str_eval)
  have "split_once TOOL_CALL (''TOOL_CALL:'' @ ''list_s3_buckets {}'') = Some ([], ''list_s3_buckets {}'')"
    by (simp add: TOOL_CALL_def)
  moreover have "tool_line_of ''list_s3_buckets {}'' = ''list_s3_buckets {}''"
    by (simp add: str_eval)
  ultimately have r: "parse_tool_call sample_loads (''TOOL_CALL:'' @ ''list_s3_buckets {}'')
      = Inr (Some (''list_s3_buckets'', JObj []))"
    by (simp add: parse_tool_call_eq parse_line_def sample_loads_def str_eval)
  from parse_tool_call_first_line[OF s, of sample_loads] l s r
  show ?thesis by simp
qed

section \<open>The parser: claim C7\<close>

lemma parse_line_raises_iff:
  "parse_line loads l = Inl x \<longleftrightarrow>
     CHR ''{'' \<in> set l \<and> loads (dropWhile (\<lambda>c. c \<noteq> CHR ''{'') l) = Inl x
     \<and> exc_class x \<noteq> JSONDecodeError"
  by (auto simp: parse_line_def split: if_splits sum.splits)

lemma parse_tool_call_raises_iff:
  "parse_tool_call loads text = Inl x \<longleftrightarrow>
     exc_class x \<noteq> JSONDecodeError
     \<and> (\<exists>before after.
           split_once TOOL_CALL text = Some (before, after)
           \<and> CHR ''{'' \<in> set (tool_line_of after)
           \<and> loads (dropWhile (\<lambda>c. c \<noteq> CHR ''{'') (tool_line_of after)) = Inl x)"
  by (auto simp: parse_tool_call_eq parse_line_raises_iff split: option.splits)

lemma deep_tool_line:
  \<open>tool_line_of ('' f {"a": '' @ replicate 100000 CHR ''['')
     = ''f {"a": '' @ replicate 100000 CHR ''[''\<close>
proof -
  let ?deep = "replicate 100000 CHR ''[''"
  let ?after = \<open>'' f {"a": '' @ ?deep\<close>
  let ?line = \<open>''f {"a": '' @ ?deep\<close>
  have ls: "lstrip ?after = ?line" by (simp add: lstrip_def py_isspace_def)
  have "nl \<notin> set ?line" by (simp add: nl_def)
  then have "takeWhile (\<lambda>c. c \<noteq> nl) ?line = ?line" by (rule takeWhile_notin)
  then have "takeWhile (\<lambda>c. c \<noteq> nl) (lstrip ?after) = ?line"
    by (simp only: ls)
  moreover have "strip ?line = ?line"
  proof (rule strip_id)
    show "?line \<noteq> []" by simp
    show "\<not> py_isspace (hd ?line)" by (simp add: py_isspace_def)
    have "last ?line = CHR ''[''" by simp
    then show "\<not> py_isspace (last ?line)" by (simp add: py_isspace_def)
  qed
  ultimately show ?thesis by (simp only: tool_line_of_lstrip)
qed

lemma parse_line_deep:
  \<open>parse_line deep_loads (''f {"a": '' @ replicate 100000 CHR ''['')
     = Inl (PyExc RecursionError
         ''maximum recursion depth exceeded while decoding a JSON array from a unicode string'')\<close>
proof -
  let ?deep = "replicate 100000 CHR ''[''"
  let ?line = \<open>''f {"a": '' @ ?deep\<close>
  have br: "CHR ''{'' \<in> set ?line" by simp
  have dw: \<open>dropWhile (\<lambda>c. c \<noteq> CHR ''{'') ?line = ''{"a": '' @ ?deep\<close> by simp
  have d: \<open>deep_loads (''{"a": '' @ ?deep) = Inl (PyExc RecursionError
         ''maximum recursion depth exceeded while decoding a JSON array from a unicode string'')\<close>
    by (simp add: deep_loads_def)
  show ?thesis
    unfolding parse_line_def
    using br dw d by (simp only: if_True sum.case exc_class.simps py_exception.sel if_False)
qed

text \<open>
  C7, as stated, fails: the parser catches \<^verbatim>\<open>json.JSONDecodeError\<close> and nothing
  else, so another exception of the decoder leaves the parser. A tool call whose
  arguments open a hundred thousand arrays makes the decoder raise
  \<^verbatim>\<open>RecursionError\<close>, and the parser raises it.
\<close>

theorem parse_tool_call_never_raises_counterexample:
  \<open>parse_tool_call deep_loads (''TOOL_CALL: f {"a": '' @ replicate 100000 CHR ''['')
     = Inl (PyExc RecursionError
         ''maximum recursion depth exceeded while decoding a JSON array from a unicode string'')\<close>
proof -
  have \<open>split_once TOOL_CALL (''TOOL_CALL: f {"a": '' @ replicate 100000 CHR ''['')
      = Some ([], '' f {"a": '' @ replicate 100000 CHR ''['')\<close>
    using split_once_prefix[of TOOL_CALL \<open>'' f {"a": '' @ replicate 100000 CHR ''[''\<close>]
    by (simp add: TOOL_CALL_def)
  then show ?thesis
    by (simp only: parse_tool_call_eq option.case prod.case deep_tool_line parse_line_deep)
qed

text \<open>
  C7, amended: for a text without the marker the parser returns nothing; when the
  decoder raises \<^verbatim>\<open>JSONDecodeError\<close> on the text from the first brace of the tool
  line, the parser returns nothing; and the parser raises an exception exactly when the
  tool line holds a brace and the decoder, applied to the text from the first brace of
  the tool line, raises that exception and it is not a \<^verbatim>\<open>JSONDecodeError\<close>: no
  other step of the parser raises.
\<close>

theorem parse_tool_call_lenient:
  "(\<not> str_contains TOOL_CALL text \<longrightarrow> parse_tool_call loads text = Inr None)
   \<and> (split_once TOOL_CALL text = Some (before, after) \<longrightarrow>
        CHR ''{'' \<in> set (tool_line_of after) \<longrightarrow>
        loads (dropWhile (\<lambda>c. c \<noteq> CHR ''{'') (tool_line_of after)) = Inl e \<longrightarrow>
        exc_class e = JSONDecodeError \<longrightarrow>
        parse_tool_call loads text = Inr None)
   \<and> (parse_tool_call loads text = Inl x \<longleftrightarrow>
        exc_class x \<noteq> JSONDecodeError
        \<and> (\<exists>before after.
              split_once TOOL_CALL text = Some (before, after)
              \<and> CHR ''{'' \<in> set (tool_line_of after)
              \<and> loads (dropWhile (\<lambda>c. c \<noteq> CHR ''{'') (tool_line_of after)) = Inl x))"
proof (intro conjI impI)
  assume "\<not> str_contains TOOL_CALL text"
  then show "parse_tool_call loads text = Inr None"
    by (simp add: parse_tool_call_def)
next
  assume "split_once TOOL_CALL text = Some (before, after)"
    and "CHR ''{'' \<in> set (tool_line_of after)"
    and "loads (dropWhile (\<lambda>c. c \<noteq> CHR ''{'') (tool_line_of after)) = Inl e"
    and "exc_class e = JSONDecodeError"
  then show "parse_tool_call loads text = Inr None"
    by (simp add: parse_tool_call_eq parse_line_def)
next
  show "parse_tool_call loads text = Inl x \<longleftrightarrow>
        exc_class x \<noteq> JSONDecodeError
        \<and> (\<exists>before after.
              split_once TOOL_CALL text = Some (before, after)
              \<and> CHR ''{'' \<in> set (tool_line_of after)
              \<and> loads (dropWhile (\<lambda>c. c \<noteq> CHR ''{'') (tool_line_of after)) = Inl x)"
    by (rule parse_tool_call_raises_iff)
qed

theorem parse_tool_call_lenient_witness:
  "\<not> str_contains TOOL_CALL ''You have no buckets.''
   \<and> parse_tool_call sample_loads ''You have no buckets.'' = Inr None
   \<and> split_once TOOL_CALL (''TOOL_CALL: foo {not json  '' @ nl # ''and more'')
       = Some ([], '' foo {not json  '' @ nl # ''and more'')
   \<and> tool_line_of ('' foo {not json  '' @ nl # ''and more'') = ''foo {not json''
   \<and> dropWhile (\<lambda>c. c \<noteq> CHR ''{'') ''foo {not json'' = ''{not json''
   \<and> sample_loads ''{not json''
       = Inl (PyExc JSONDecodeError ''Expecting property name enclosed in double quotes'')
   \<and> parse_tool_call sample_loads (''TOOL_CALL: foo {not json  '' @ nl # ''and more'') = Inr None"
proof -
  let ?after = "'' foo {not json  '' @ nl # ''and more''"
  let ?text = "''TOOL_CALL: foo {not json  '' @ nl # ''and more''"
  let ?e = "PyExc JSONDecodeError ''Expecting property name enclosed in double quotes''"
  have a: "\<not> str_contains TOOL_CALL ''You have no buckets.''"
    by (simp add: TOOL_CALL_def)
  have s: "split_once TOOL_CALL ?text = Some ([], ?after)"
    by (simp add: TOOL_CALL_def)
  have l: "tool_line_of ?after = ''foo {not json''"
    by (simp add: str_eval)
  have j: "dropWhile (\<lambda>c. c \<noteq> CHR ''{'') ''foo {not json'' = ''{not json''" by simp
  have d: "sample_loads ''{not json'' = Inl ?e"
    by (simp add: sample_loads_def)
  from parse_tool_call_lenient[of "''You have no buckets.''" sample_loads] a
  have 1: "parse_tool_call sample_loads ''You have no buckets.'' = Inr None" by blast
  from parse_tool_call_lenient[of ?text sample_loads "[]" ?after ?e] s l j d
  have 2: "parse_tool_call sample_loads ?text = Inr None" by simp
  from a 1 s l j d 2 show ?thesis by (intro conjI)
qed

lemma tool_line_of_spaces: "list_all py_isspace ws \<Longrightarrow> tool_line_of ws = []"
  by (simp add: tool_line_of_def strip_spaces)

section \<open>The tool catalogue: claim C9\<close>

lemma add_param_append: "add_param schema acc p = acc @ param_line schema p"
  by (cases p) (simp add: add_param_def param_line_def Let_def)

lemma foldl_add_param:
  "foldl (add_param schema) acc props = acc @ concat (map (param_line schema) props)"
proof (induction props arbitrary: acc)
  case Nil
  show ?case by simp
next
  case (Cons p props)
  have "foldl (add_param schema) acc (p # props)
      = foldl (add_param schema) (acc @ param_line schema p) props"
    by (simp add: add_param_append)
  also have "\<dots> = (acc @ param_line schema p) @ concat (map (param_line schema) props)"
    by (rule Cons.IH)
  finally show ?case by simp
qed

lemma add_tool_append: "add_tool acc t = acc @ tool_block t"
  by (simp add: add_tool_def tool_block_def Let_def foldl_add_param
      split: option.splits)

lemma foldl_add_tool: "foldl add_tool acc tools = acc @ concat (map tool_block tools)"
proof (induction tools arbitrary: acc)
  case Nil
  show ?case by simp
next
  case (Cons t tools)
  have "foldl add_tool acc (t # tools) = foldl add_tool (acc @ tool_block t) tools"
    by (simp add: add_tool_append)
  also have "\<dots> = (acc @ tool_block t) @ concat (map tool_block tools)"
    by (rule Cons.IH)
  finally show ?case by simp
qed

text \<open>
  C9: the text is a function of the descriptor sequence alone: the embedding reads
  nothing else and writes nothing, so two calls with the same sequence give the same
  text. The text is the header followed by the blocks of the tools in the order of the
  sequence; a block is the bullet of the tool followed, when the schema has properties,
  by the lines of its parameters in the order of the dictionary; a line shows the name,
  the type or \<^verbatim>\<open>string\<close> when there is none, \<^verbatim>\<open>(required)\<close> exactly when the name is
  in the schema's required list and \<^verbatim>\<open>(optional)\<close> otherwise, and the description.
\<close>

theorem format_tools_for_llm_layout:
  "(tools' = tools \<longrightarrow> format_tools_for_llm tools' = format_tools_for_llm tools)
   \<and> format_tools_for_llm tools = ''Available tools:'' @ [nl, nl] @ concat (map tool_block tools)
   \<and> format_tools_for_llm (tools @ others)
       = format_tools_for_llm tools @ concat (map tool_block others)
   \<and> tool_block t
       = ''- **'' @ name t @ ''**: '' @ str_of_optional (description t) @ [nl]
         @ (case inputSchema t of
              None \<Rightarrow> []
            | Some schema \<Rightarrow>
                (case properties schema of
                   None \<Rightarrow> []
                 | Some props \<Rightarrow>
                     ''  Parameters:'' @ [nl] @ concat (map (param_line schema) props)))
         @ [nl]
   \<and> param_line schema (param_name, info)
       = ''    - '' @ param_name
         @ '' ('' @ (case type_entry info of None \<Rightarrow> ''string'' | Some ty \<Rightarrow> ty) @ '')''
         @ (if param_name \<in> set (case required schema of None \<Rightarrow> [] | Some names \<Rightarrow> names)
            then '' (required)'' else '' (optional)'')
         @ '': '' @ (case description_entry info of None \<Rightarrow> [] | Some d \<Rightarrow> d) @ [nl]"
proof (intro conjI)
  show "tools' = tools \<longrightarrow> format_tools_for_llm tools' = format_tools_for_llm tools"
    by simp
  show "format_tools_for_llm tools
      = ''Available tools:'' @ [nl, nl] @ concat (map tool_block tools)"
    by (simp add: format_tools_for_llm_def foldl_add_tool)
  show "format_tools_for_llm (tools @ others)
      = format_tools_for_llm tools @ concat (map tool_block others)"
    by (simp add: format_tools_for_llm_def foldl_add_tool)
  show "tool_block t
       = ''- **'' @ name t @ ''**: '' @ str_of_optional (description t) @ [nl]
         @ (case inputSchema t of
              None \<Rightarrow> []
            | Some schema \<Rightarrow>
                (case properties schema of
                   None \<Rightarrow> []
                 | Some props \<Rightarrow>
                     ''  Parameters:'' @ [nl] @ concat (map (param_line schema) props)))
         @ [nl]"
    by (simp add: tool_block_def add_tool_def Let_def foldl_add_param split: option.splits)
  show "param_line schema (param_name, info)
       = ''    - '' @ param_name
         @ '' ('' @ (case type_entry info of None \<Rightarrow> ''string'' | Some ty \<Rightarrow> ty) @ '')''
         @ (if param_name \<in> set (case required schema of None \<Rightarrow> [] | Some names \<Rightarrow> names)
            then '' (required)'' else '' (optional)'')
         @ '': '' @ (case description_entry info of None \<Rightarrow> [] | Some d \<Rightarrow> d) @ [nl]"
    by (simp add: param_line_def add_param_def get_default_def Let_def)
qed

theorem format_tools_for_llm_layout_witness:
  "format_tools_for_llm
     [\<lparr>name = ''list_s3_buckets'', description = Some ''List all S3 buckets'', inputSchema = None\<rparr>,
      \<lparr>name = ''check_resource_compliance'', description = Some ''Check compliance'',
       inputSchema = Some
         \<lparr>properties = Some
            [(''resourceType'', \<lparr>type_entry = Some ''string'', description_entry = Some ''Kind of resource''\<rparr>),
             (''standard'', \<lparr>type_entry = None, description_entry = None\<rparr>)],
          required = Some [''resourceType'']\<rparr>\<rparr>]
   = ''Available tools:'' @ [nl, nl]
     @ ''- **list_s3_buckets**: List all S3 buckets'' @ [nl, nl]
     @ ''- **check_resource_compliance**: Check compliance'' @ [nl]
     @ ''  Parameters:'' @ [nl]
     @ ''    - resourceType (string) (required): Kind of resource'' @ [nl]
     @ ''    - standard (string) (optional): '' @ [nl, nl]"
  by (simp add: format_tools_for_llm_layout str_of_optional_def)

section \<open>The tool session: claims C4 and C5\<close>

lemma process_message_direct:
  assumes "call_llm E w self user_message (turn_prompt self) = (llm_response, w1)"
    and "parse_tool_call (json_loads E) llm_response = Inr None"
  shows "process_message E w self user_message
     = (Inr llm_response, commit self user_message llm_response, w1)"
  using assms by (simp add: process_message_def turn_prompt_def Let_def)

lemma process_message_tool:
  assumes "call_llm E w self user_message (turn_prompt self) = (llm_response, w1)"
    and "parse_tool_call (json_loads E) llm_response = Inr (Some (tool_name, arguments))"
    and "call_mcp_tool E w1 tool_name arguments = (tool_result, w2)"
    and "call_llm E w2 self (follow_up_prompt_of tool_name tool_result) (turn_prompt self)
           = (final_response, w3)"
  shows "process_message E w self user_message
     = (Inr final_response, commit self user_message final_response, w3)"
  using assms by (simp add: process_message_def turn_prompt_def Let_def)

lemma process_message_raises:
  assumes "call_llm E w self user_message (turn_prompt self) = (llm_response, w1)"
    and "parse_tool_call (json_loads E) llm_response = Inl x"
  shows "process_message E w self user_message = (Inl x, self, w1)"
  using assms by (simp add: process_message_def turn_prompt_def Let_def)

lemma str_contains_middle: "str_contains sub (ps @ sub @ ss)"
  unfolding str_contains_iff by blast

text \<open>
  C4: when the backend call raises, \<^verbatim>\<open>call_mcp_tool\<close> returns the text
  \<^verbatim>\<open>Error calling tool <name>: <message>\<close>, which holds the tool's name and the
  message of the exception; it returns to its caller, and a turn whose decision named
  the tool goes on to the narration call with that text and ends with its commit.
\<close>

theorem call_mcp_tool_catches:
  assumes "call_tool E w1 tool_name arguments = (Inl e, w2)"
  shows "call_mcp_tool E w1 tool_name arguments
           = (''Error calling tool '' @ tool_name @ '': '' @ exc_str e, w2)
     \<and> str_contains tool_name (fst (call_mcp_tool E w1 tool_name arguments))
     \<and> str_contains (exc_str e) (fst (call_mcp_tool E w1 tool_name arguments))
     \<and> (call_llm E w self user_message (turn_prompt self) = (llm_response, w1) \<longrightarrow>
          parse_tool_call (json_loads E) llm_response = Inr (Some (tool_name, arguments)) \<longrightarrow>
          process_message E w self user_message
            = (case call_llm E w2 self
                      (follow_up_prompt_of tool_name
                         (''Error calling tool '' @ tool_name @ '': '' @ exc_str e))
                      (turn_prompt self) of
                 (final_response, w3) \<Rightarrow>
                   (Inr final_response, commit self user_message final_response, w3)))"
proof -
  have r: "call_mcp_tool E w1 tool_name arguments
      = (''Error calling tool '' @ tool_name @ '': '' @ exc_str e, w2)"
    using assms by (simp add: call_mcp_tool_def tool_error_text_def)
  have n: "str_contains tool_name (''Error calling tool '' @ tool_name @ '': '' @ exc_str e)"
    by (rule str_contains_middle)
  have "str_contains (exc_str e) ((''Error calling tool '' @ tool_name @ '': '') @ exc_str e @ [])"
    by (rule str_contains_middle)
  then have m: "str_contains (exc_str e) (''Error calling tool '' @ tool_name @ '': '' @ exc_str e)"
    by simp
  have p: "call_llm E w self user_message (turn_prompt self) = (llm_response, w1) \<longrightarrow>
          parse_tool_call (json_loads E) llm_response = Inr (Some (tool_name, arguments)) \<longrightarrow>
          process_message E w self user_message
            = (case call_llm E w2 self
                      (follow_up_prompt_of tool_name
                         (''Error calling tool '' @ tool_name @ '': '' @ exc_str e))
                      (turn_prompt self) of
                 (final_response, w3) \<Rightarrow>
                   (Inr final_response, commit self user_message final_response, w3))"
    using r by (auto simp: process_message_tool split: prod.splits)
  from r n m p show ?thesis by (simp only: fst_conv) 
qed

lemmas env_eval =
  sample_env_def env_with_def scripted_chat_def buckets_backend_def fixed_backend_def
  call_llm_def

theorem call_mcp_tool_catches_witness:
  "call_tool sample_env \<lparr>script = [Inr ''The tool is not available.''], backend_calls = []\<rparr>
       ''delete_everything'' (JObj [])
     = (Inl (PyExc OtherError ''Unknown tool: delete_everything''),
        \<lparr>script = [Inr ''The tool is not available.''],
         backend_calls = [(''delete_everything'', JObj [])]\<rparr>)
   \<and> call_mcp_tool sample_env
       \<lparr>script = [Inr ''The tool is not available.''], backend_calls = []\<rparr>
       ''delete_everything'' (JObj [])
     = (''Error calling tool delete_everything: Unknown tool: delete_everything'',
        \<lparr>script = [Inr ''The tool is not available.''],
         backend_calls = [(''delete_everything'', JObj [])]\<rparr>)
   \<and> process_message sample_env
       \<lparr>script = [Inr ''TOOL_CALL: delete_everything {}'', Inr ''The tool is not available.''],
        backend_calls = []\<rparr>
       sample_client ''Delete all my buckets''
     = (Inr ''The tool is not available.'',
        commit sample_client ''Delete all my buckets'' ''The tool is not available.'',
        \<lparr>script = [], backend_calls = [(''delete_everything'', JObj [])]\<rparr>)"
proof -
  let ?w = "\<lparr>script = [Inr ''TOOL_CALL: delete_everything {}'', Inr ''The tool is not available.''],
        backend_calls = []\<rparr>"
  let ?w1 = "\<lparr>script = [Inr ''The tool is not available.''], backend_calls = []\<rparr>"
  let ?w2 = "\<lparr>script = [Inr ''The tool is not available.''],
         backend_calls = [(''delete_everything'', JObj [])]\<rparr>"
  let ?e = "PyExc OtherError ''Unknown tool: delete_everything''"
  have b: "call_tool sample_env ?w1 ''delete_everything'' (JObj []) = (Inl ?e, ?w2)"
    by (simp add: env_eval)
  have d: "call_llm sample_env ?w sample_client ''Delete all my buckets'' (turn_prompt sample_client)
      = (''TOOL_CALL: delete_everything {}'', ?w1)"
    by (simp add: env_eval)
  have "split_once TOOL_CALL ''TOOL_CALL: delete_everything {}'' = Some ([], '' delete_everything {}'')"
    by (simp add: TOOL_CALL_def)
  moreover have "tool_line_of '' delete_everything {}'' = ''delete_everything {}''"
    by (simp add: str_eval)
  ultimately have p: "parse_tool_call (json_loads sample_env) ''TOOL_CALL: delete_everything {}''
      = Inr (Some (''delete_everything'', JObj []))"
    by (simp add: parse_tool_call_eq parse_line_def sample_loads_def env_eval str_eval)
  have n: "call_llm sample_env ?w2 sample_client
       (follow_up_prompt_of ''delete_everything''
          (''Error calling tool '' @ ''delete_everything'' @ '': '' @ exc_str ?e))
       (turn_prompt sample_client)
     = (''The tool is not available.'',
        \<lparr>script = [], backend_calls = [(''delete_everything'', JObj [])]\<rparr>)"
    by (simp add: env_eval)
  from call_mcp_tool_catches[OF b, of ?w sample_client "''Delete all my buckets''"
      "''TOOL_CALL: delete_everything {}''"] b d p n
  show ?thesis by simp
qed

lemma call_mcp_tool_reply:
  assumes "call_tool E w tool_name arguments = (Inr result, w')"
  shows "call_mcp_tool E w tool_name arguments
     = (case extract_content result of
          Inl e \<Rightarrow> tool_error_text tool_name e
        | Inr response \<Rightarrow> response, w')"
  using assms by (simp add: call_mcp_tool_def split: sum.splits)

text \<open>
  C5, as stated, fails: a reply whose content is truthy and is not a list is turned
  into the string form of the content (\<^verbatim>\<open>str(result.content)\<close>), which is not the
  string form of the reply.
\<close>

theorem call_mcp_tool_normalizes_counterexample:
  "call_mcp_tool
     (env_with (fixed_backend
        (Inr \<lparr>result_content = Some (ContentOther True ''bucket-a, bucket-b''),
              result_str = ''namespace(content='bucket-a, bucket-b')''\<rparr>)))
     \<lparr>script = [], backend_calls = []\<rparr> ''list_s3_buckets'' (JObj [])
   = (''bucket-a, bucket-b'', \<lparr>script = [], backend_calls = [(''list_s3_buckets'', JObj [])]\<rparr>)
   \<and> ''bucket-a, bucket-b''
     \<noteq> result_str \<lparr>result_content = Some (ContentOther True ''bucket-a, bucket-b''),
                      result_str = ''namespace(content='bucket-a, bucket-b')''\<rparr>"
  by (simp add: call_mcp_tool_def env_eval extract_content_def truthy_def is_list_def
      len_def str_of_content_def)

text \<open>
  C5, amended: for a reply that the backend returned, when the content is a list that
  is not empty and whose first part has a text field, the returned text is that field;
  when the content is truthy and is not a list, the returned text is the string form of
  the content; when the reply has no content, or its content is falsy (the empty list
  is), the returned text is the string form of the reply.
\<close>

theorem call_mcp_tool_normalizes:
  assumes "call_tool E w tool_name arguments = (Inr result, w')"
  shows "(result_content result = Some (ContentList (TextContent t # parts)) \<longrightarrow>
            call_mcp_tool E w tool_name arguments = (t, w'))
     \<and> (result_content result = Some (ContentOther True s) \<longrightarrow>
            call_mcp_tool E w tool_name arguments = (s, w'))
     \<and> (result_content result = None \<or> result_content result = Some (ContentList [])
          \<or> result_content result = Some (ContentOther False s) \<longrightarrow>
            call_mcp_tool E w tool_name arguments = (result_str result, w'))"
  using call_mcp_tool_reply[OF assms]
  by (auto simp: extract_content_def truthy_def is_list_def len_def str_of_content_def
      first_text_def)

theorem call_mcp_tool_normalizes_witness:
  "call_tool sample_env \<lparr>script = [], backend_calls = []\<rparr> ''list_s3_buckets'' (JObj [])
     = (Inr \<lparr>result_content = Some (ContentList [TextContent ''bucket-a, bucket-b'']),
             result_str = ''CallToolResult''\<rparr>,
        \<lparr>script = [], backend_calls = [(''list_s3_buckets'', JObj [])]\<rparr>)
   \<and> call_mcp_tool sample_env \<lparr>script = [], backend_calls = []\<rparr> ''list_s3_buckets'' (JObj [])
     = (''bucket-a, bucket-b'', \<lparr>script = [], backend_calls = [(''list_s3_buckets'', JObj [])]\<rparr>)
   \<and> call_mcp_tool
       (env_with (fixed_backend
          (Inr \<lparr>result_content = Some (ContentList []), result_str = ''CallToolResult''\<rparr>)))
       \<lparr>script = [], backend_calls = []\<rparr> ''list_s3_buckets'' (JObj [])
     = (''CallToolResult'', \<lparr>script = [], backend_calls = [(''list_s3_buckets'', JObj [])]\<rparr>)"
proof -
  let ?w = "\<lparr>script = [], backend_calls = []\<rparr>"
  let ?w' = "\<lparr>script = [], backend_calls = [(''list_s3_buckets'', JObj [])]\<rparr>"
  let ?r1 = "\<lparr>result_content = Some (ContentList [TextContent ''bucket-a, bucket-b'']),
             result_str = ''CallToolResult''\<rparr>"
  let ?r2 = "\<lparr>result_content = Some (ContentList []), result_str = ''CallToolResult''\<rparr>"
  have a: "call_tool sample_env ?w ''list_s3_buckets'' (JObj []) = (Inr ?r1, ?w')"
    by (simp add: env_eval)
  have b: "call_tool (env_with (fixed_backend (Inr ?r2))) ?w ''list_s3_buckets'' (JObj [])
      = (Inr ?r2, ?w')"
    by (simp add: env_eval)
  from call_mcp_tool_normalizes[OF a, of "''bucket-a, bucket-b''" "[]"]
  have 1: "call_mcp_tool sample_env ?w ''list_s3_buckets'' (JObj []) = (''bucket-a, bucket-b'', ?w')"
    by simp
  from call_mcp_tool_normalizes[OF b]
  have 2: "call_mcp_tool (env_with (fixed_backend (Inr ?r2))) ?w ''list_s3_buckets'' (JObj [])
      = (''CallToolResult'', ?w')"
    by simp
  from a 1 2 show ?thesis by simp
qed

lemma call_mcp_tool_part_without_text:
  assumes "call_tool E w tool_name arguments = (Inr result, w')"
    and "result_content result = Some (ContentList (OtherContent cls # parts))"
  shows "call_mcp_tool E w tool_name arguments
     = (''Error calling tool '' @ tool_name @ '': '' @ [squote] @ cls @ [squote]
          @ '' object has no attribute '' @ [squote] @ ''text'' @ [squote], w')"
  using call_mcp_tool_reply[OF assms(1)] assms(2)
  by (simp add: extract_content_def truthy_def is_list_def len_def first_text_def
      tool_error_text_def)

section \<open>The turn: claims C1, C3 and C10\<close>

lemma commit_history:
  "conversation_history (commit self user_message answer)
     = conversation_history self
       @ [\<lparr>role = ''user'', content = user_message\<rparr>, \<lparr>role = ''assistant'', content = answer\<rparr>]"
  by (simp add: commit_def)

lemma process_message_returns:
  assumes "process_message E w self user_message = (Inr answer, self', w')"
  shows "self' = commit self user_message answer"
proof -
  obtain llm_response w1 where d: "call_llm E w self user_message (turn_prompt self) = (llm_response, w1)"
    by (cases "call_llm E w self user_message (turn_prompt self)")
  show ?thesis
  proof (cases "parse_tool_call (json_loads E) llm_response")
    case (Inl x)
    with d assms show ?thesis by (simp add: process_message_raises)
  next
    case (Inr r)
    show ?thesis
    proof (cases r)
      case None
      with Inr d have "process_message E w self user_message
          = (Inr llm_response, commit self user_message llm_response, w1)"
        by (simp add: process_message_direct)
      with assms show ?thesis by auto
    next
      case (Some na)
      obtain tool_name arguments where na: "na = (tool_name, arguments)" by (cases na)
      obtain tool_result w2 where t: "call_mcp_tool E w1 tool_name arguments = (tool_result, w2)"
        by (cases "call_mcp_tool E w1 tool_name arguments")
      obtain final_response w3 where
        f: "call_llm E w2 self (follow_up_prompt_of tool_name tool_result) (turn_prompt self)
              = (final_response, w3)"
        by (cases "call_llm E w2 self (follow_up_prompt_of tool_name tool_result) (turn_prompt self)")
      from d Inr Some na t f have "process_message E w self user_message
          = (Inr final_response, commit self user_message final_response, w3)"
        by (simp add: process_message_tool)
      with assms show ?thesis by auto
    qed
  qed
qed

text \<open>
  C1: after a call of \<^verbatim>\<open>process_message\<close> that returns an answer, and after an
  iteration of \<^verbatim>\<open>chat_loop\<close> that prints one, the conversation history is the one
  before followed by two messages: the user's, with the utterance as content, and the
  assistant's, with the answer as content. The statement covers every such call, so
  both the path with a tool call and the path without; the utterance of the loop is
  the stripped input line.
\<close>

theorem turn_commit:
  "(process_message E w self user_message = (Inr answer, self', w') \<longrightarrow>
      conversation_history self'
        = conversation_history self
          @ [\<lparr>role = ''user'', content = user_message\<rparr>,
             \<lparr>role = ''assistant'', content = answer\<rparr>]
      \<and> length (conversation_history self') = length (conversation_history self) + 2)
   \<and> (chat_loop_step E w self line = (Answered answer, self', w') \<longrightarrow>
      conversation_history self'
        = conversation_history self
          @ [\<lparr>role = ''user'', content = strip line\<rparr>,
             \<lparr>role = ''assistant'', content = answer\<rparr>]
      \<and> length (conversation_history self') = length (conversation_history self) + 2)"
proof (intro conjI impI)
  assume "process_message E w self user_message = (Inr answer, self', w')"
  then have "self' = commit self user_message answer" by (rule process_message_returns)
  then show "conversation_history self'
        = conversation_history self
          @ [\<lparr>role = ''user'', content = user_message\<rparr>,
             \<lparr>role = ''assistant'', content = answer\<rparr>]"
    and "length (conversation_history self') = length (conversation_history self) + 2"
    by (simp_all add: commit_history)
next
  assume a: "chat_loop_step E w self line = (Answered answer, self', w')"
  then have "process_message E w self (strip line) = (Inr answer, self', w')"
    by (auto simp: chat_loop_step_def Let_def split: if_splits sum.splits prod.splits)
  then have "self' = commit self (strip line) answer" by (rule process_message_returns)
  then show "conversation_history self'
        = conversation_history self
          @ [\<lparr>role = ''user'', content = strip line\<rparr>,
             \<lparr>role = ''assistant'', content = answer\<rparr>]"
    and "length (conversation_history self') = length (conversation_history self) + 2"
    by (simp_all add: commit_history)
qed

theorem turn_commit_witness:
  "process_message sample_env
       \<lparr>script = [Inr ''TOOL_CALL: list_s3_buckets {}'',
                  Inr ''You have two buckets: bucket-a and bucket-b.''],
        backend_calls = []\<rparr>
       sample_client ''List my S3 buckets''
     = (Inr ''You have two buckets: bucket-a and bucket-b.'',
        commit sample_client ''List my S3 buckets'' ''You have two buckets: bucket-a and bucket-b.'',
        \<lparr>script = [], backend_calls = [(''list_s3_buckets'', JObj [])]\<rparr>)
   \<and> conversation_history
       (commit sample_client ''List my S3 buckets'' ''You have two buckets: bucket-a and bucket-b.'')
     = [\<lparr>role = ''user'', content = ''List my S3 buckets''\<rparr>,
        \<lparr>role = ''assistant'', content = ''You have two buckets: bucket-a and bucket-b.''\<rparr>]
   \<and> chat_loop_step sample_env \<lparr>script = [Inr ''Hello! Ask me about your buckets.''], backend_calls = []\<rparr>
       sample_client ''  hello ''
     = (Answered ''Hello! Ask me about your buckets.'',
        commit sample_client ''hello'' ''Hello! Ask me about your buckets.'',
        \<lparr>script = [], backend_calls = []\<rparr>)
   \<and> conversation_history (commit sample_client ''hello'' ''Hello! Ask me about your buckets.'')
     = [\<lparr>role = ''user'', content = ''hello''\<rparr>,
        \<lparr>role = ''assistant'', content = ''Hello! Ask me about your buckets.''\<rparr>]"
proof -
  let ?w = "\<lparr>script = [Inr ''TOOL_CALL: list_s3_buckets {}'',
                  Inr ''You have two buckets: bucket-a and bucket-b.''],
        backend_calls = []\<rparr>"
  let ?w1 = "\<lparr>script = [Inr ''You have two buckets: bucket-a and bucket-b.''], backend_calls = []\<rparr>"
  let ?w2 = "\<lparr>script = [Inr ''You have two buckets: bucket-a and bucket-b.''],
        backend_calls = [(''list_s3_buckets'', JObj [])]\<rparr>"
  let ?w3 = "\<lparr>script = [], backend_calls = [(''list_s3_buckets'', JObj [])]\<rparr>"
  let ?a = "''You have two buckets: bucket-a and bucket-b.''"
  let ?v = "\<lparr>script = [Inr ''Hello! Ask me about your buckets.''], backend_calls = []\<rparr>"
  let ?v1 = "\<lparr>script = [], backend_calls = []\<rparr>"
  let ?b = "''Hello! Ask me about your buckets.''"
  have d: "call_llm sample_env ?w sample_client ''List my S3 buckets'' (turn_prompt sample_client)
      = (''TOOL_CALL: list_s3_buckets {}'', ?w1)"
    by (simp add: env_eval)
  have "split_once TOOL_CALL ''TOOL_CALL: list_s3_buckets {}'' = Some ([], '' list_s3_buckets {}'')"
    by (simp add: TOOL_CALL_def)
  moreover have "tool_line_of '' list_s3_buckets {}'' = ''list_s3_buckets {}''"
    by (simp add: str_eval)
  ultimately have p: "parse_tool_call (json_loads sample_env) ''TOOL_CALL: list_s3_buckets {}''
      = Inr (Some (''list_s3_buckets'', JObj []))"
    by (simp add: parse_tool_call_eq parse_line_def sample_loads_def env_eval str_eval)
  have t: "call_mcp_tool sample_env ?w1 ''list_s3_buckets'' (JObj []) = (''bucket-a, bucket-b'', ?w2)"
    by (simp add: call_mcp_tool_def env_eval extract_content_def truthy_def is_list_def len_def
        first_text_def)
  have n: "call_llm sample_env ?w2 sample_client
       (follow_up_prompt_of ''list_s3_buckets'' ''bucket-a, bucket-b'') (turn_prompt sample_client)
      = (?a, ?w3)"
    by (simp add: env_eval)
  have 1: "process_message sample_env ?w sample_client ''List my S3 buckets''
      = (Inr ?a, commit sample_client ''List my S3 buckets'' ?a, ?w3)"
    using d p t n by (rule process_message_tool)
  have e: "call_llm sample_env ?v sample_client ''hello'' (turn_prompt sample_client) = (?b, ?v1)"
    by (simp add: env_eval)
  have q: "parse_tool_call (json_loads sample_env) ?b = Inr None"
    by (simp add: parse_tool_call_def TOOL_CALL_def)
  have "process_message sample_env ?v sample_client ''hello''
      = (Inr ?b, commit sample_client ''hello'' ?b, ?v1)"
    using e q by (rule process_message_direct)
  moreover have "strip ''  hello '' = ''hello''" by (simp add: str_eval)
  ultimately have 2: "chat_loop_step sample_env ?v sample_client ''  hello ''
      = (Answered ?b, commit sample_client ''hello'' ?b, ?v1)"
    by (simp add: chat_loop_step_def py_lower_def)
  have h: "conversation_history sample_client = []" by (simp add: sample_client_def)
  from turn_commit[of sample_env ?w sample_client "''List my S3 buckets''" ?a
      "commit sample_client ''List my S3 buckets'' ?a" ?w3] 1 h
  have 3: "conversation_history (commit sample_client ''List my S3 buckets'' ?a)
     = [\<lparr>role = ''user'', content = ''List my S3 buckets''\<rparr>,
        \<lparr>role = ''assistant'', content = ?a\<rparr>]"
    by simp
  from turn_commit[of sample_env ?v sample_client _ ?b "commit sample_client ''hello'' ?b" ?v1
      "''  hello ''"] 2 h \<open>strip ''  hello '' = ''hello''\<close>
  have 4: "conversation_history (commit sample_client ''hello'' ?b)
     = [\<lparr>role = ''user'', content = ''hello''\<rparr>, \<lparr>role = ''assistant'', content = ?b\<rparr>]"
    by simp
  from 1 2 3 4 show ?thesis by (intro conjI)
qed

lemma no_marker_in_error_text:
  "str_contains TOOL_CALL (''Error calling LLM: '' @ m) = str_contains TOOL_CALL m"
  by (simp add: TOOL_CALL_def)

lemma call_llm_failure:
  assumes "chat E w (model_name self) (llm_messages self user_message system_prompt) = (Inl e, w1)"
  shows "call_llm E w self user_message system_prompt = (''Error calling LLM: '' @ exc_str e, w1)"
  using assms by (simp add: call_llm_def llm_error_text_def)

lemma process_message_completes:
  assumes "call_llm E w self user_message (turn_prompt self) = (llm_response, w1)"
    and "parse_tool_call (json_loads E) llm_response = Inr r"
  shows "\<exists>answer w'.
      process_message E w self user_message = (Inr answer, commit self user_message answer, w')
      \<and> (answer = llm_response
          \<or> (\<exists>tool_name arguments tool_result w2.
                r = Some (tool_name, arguments)
                \<and> call_mcp_tool E w1 tool_name arguments = (tool_result, w2)
                \<and> call_llm E w2 self (follow_up_prompt_of tool_name tool_result) (turn_prompt self)
                    = (answer, w')))"
proof (cases r)
  case None
  with assms have "process_message E w self user_message
      = (Inr llm_response, commit self user_message llm_response, w1)"
    by (simp add: process_message_direct)
  then show ?thesis by blast
next
  case (Some na)
  obtain tool_name arguments where na: "na = (tool_name, arguments)" by (cases na)
  obtain tool_result w2 where t: "call_mcp_tool E w1 tool_name arguments = (tool_result, w2)"
    by (cases "call_mcp_tool E w1 tool_name arguments")
  obtain final_response w3 where
    f: "call_llm E w2 self (follow_up_prompt_of tool_name tool_result) (turn_prompt self)
          = (final_response, w3)"
    by (cases "call_llm E w2 self (follow_up_prompt_of tool_name tool_result) (turn_prompt self)")
  from assms Some na t f have "process_message E w self user_message
      = (Inr final_response, commit self user_message final_response, w3)"
    by (simp add: process_message_tool)
  with Some na t f show ?thesis by blast
qed

lemma process_message_raises_iff:
  assumes "call_llm E w self user_message (turn_prompt self) = (llm_response, w1)"
  shows "process_message E w self user_message = (Inl x, self', w') \<longleftrightarrow>
     parse_tool_call (json_loads E) llm_response = Inl x \<and> self' = self \<and> w' = w1"
proof (cases "parse_tool_call (json_loads E) llm_response")
  case (Inl y)
  with assms have "process_message E w self user_message = (Inl y, self, w1)"
    by (rule process_message_raises)
  with Inl show ?thesis by auto
next
  case (Inr r)
  from process_message_completes[OF assms Inr] Inr show ?thesis by auto
qed

text \<open>
  C3, as stated, fails: the error text is parsed like any decision, and the decoder's
  exceptions other than \<^verbatim>\<open>JSONDecodeError\<close> are not caught. When the message of the
  LLM's exception reads as a tool call whose arguments open a hundred thousand arrays,
  the decoder raises \<^verbatim>\<open>RecursionError\<close>, the turn raises it, and nothing is
  committed.
\<close>

theorem llm_failure_is_answered_counterexample:
  \<open>process_message deep_env
     \<lparr>script = [Inl (PyExc OtherError (''TOOL_CALL: f {"a": '' @ replicate 100000 CHR ''[''))],
      backend_calls = []\<rparr>
     sample_client ''List my S3 buckets''
   = (Inl (PyExc RecursionError
         ''maximum recursion depth exceeded while decoding a JSON array from a unicode string''),
      sample_client, \<lparr>script = [], backend_calls = []\<rparr>)\<close>
proof -
  let ?msg = \<open>''TOOL_CALL: f {"a": '' @ replicate 100000 CHR ''[''\<close>
  let ?w = "\<lparr>script = [Inl (PyExc OtherError ?msg)], backend_calls = []\<rparr>"
  have d: "call_llm deep_env ?w sample_client ''List my S3 buckets'' (turn_prompt sample_client)
      = (''Error calling LLM: '' @ ?msg, \<lparr>script = [], backend_calls = []\<rparr>)"
    by (simp add: call_llm_def deep_env_def scripted_chat_def llm_error_text_def)
  have \<open>split_once TOOL_CALL (''Error calling LLM: '' @ ?msg)
      = Some (''Error calling LLM: '', '' f {"a": '' @ replicate 100000 CHR ''['')\<close>
    by (simp add: TOOL_CALL_def)
  then have "parse_tool_call deep_loads (''Error calling LLM: '' @ ?msg)
      = Inl (PyExc RecursionError
         ''maximum recursion depth exceeded while decoding a JSON array from a unicode string'')"
    by (simp only: parse_tool_call_eq option.case prod.case deep_tool_line parse_line_deep)
  then have p: "parse_tool_call (json_loads deep_env) (''Error calling LLM: '' @ ?msg)
      = Inl (PyExc RecursionError
         ''maximum recursion depth exceeded while decoding a JSON array from a unicode string'')"
    by (simp add: deep_env_def)
  from d p show ?thesis by (rule process_message_raises)
qed

text \<open>
  C3, amended: when the chat call of the decision raises, \<^verbatim>\<open>call_llm\<close> returns the
  text \<^verbatim>\<open>Error calling LLM: <message>\<close> and does not raise. When that text holds no
  marker, the turn returns it and commits it as the assistant's content. When the
  decoder raises nothing but \<^verbatim>\<open>JSONDecodeError\<close> on the text from the first brace of
  the tool line of the error text, the turn returns: its answer is the error text, or
  the narration of the tool call that the error text was parsed to, and the answer is
  committed as the assistant's content. The turn raises exactly when the decoder raises
  on that text an exception that is not a \<^verbatim>\<open>JSONDecodeError\<close>; the exception is then
  the decoder's, never the one the LLM raised, and the client is left as it was, with
  nothing committed.
\<close>

theorem llm_failure_is_answered:
  assumes "chat E w (model_name self) (llm_messages self user_message (turn_prompt self))
             = (Inl e, w1)"
  shows "call_llm E w self user_message (turn_prompt self) = (''Error calling LLM: '' @ exc_str e, w1)
     \<and> (\<not> str_contains TOOL_CALL (exc_str e) \<longrightarrow>
          process_message E w self user_message
            = (Inr (''Error calling LLM: '' @ exc_str e),
               commit self user_message (''Error calling LLM: '' @ exc_str e), w1))
     \<and> ((\<forall>before after x.
            split_once TOOL_CALL (''Error calling LLM: '' @ exc_str e) = Some (before, after) \<longrightarrow>
            CHR ''{'' \<in> set (tool_line_of after) \<longrightarrow>
            json_loads E (dropWhile (\<lambda>c. c \<noteq> CHR ''{'') (tool_line_of after)) = Inl x \<longrightarrow>
            exc_class x = JSONDecodeError) \<longrightarrow>
          (\<exists>answer w'.
             process_message E w self user_message
               = (Inr answer, commit self user_message answer, w')
             \<and> (answer = ''Error calling LLM: '' @ exc_str e
                 \<or> (\<exists>tool_name arguments tool_result w2.
                       parse_tool_call (json_loads E) (''Error calling LLM: '' @ exc_str e)
                         = Inr (Some (tool_name, arguments))
                       \<and> call_mcp_tool E w1 tool_name arguments = (tool_result, w2)
                       \<and> call_llm E w2 self (follow_up_prompt_of tool_name tool_result)
                             (turn_prompt self)
                           = (answer, w')))))
     \<and> (process_message E w self user_message = (Inl y, self', w') \<longleftrightarrow>
          self' = self \<and> w' = w1 \<and> exc_class y \<noteq> JSONDecodeError
          \<and> (\<exists>before after.
                split_once TOOL_CALL (''Error calling LLM: '' @ exc_str e) = Some (before, after)
                \<and> CHR ''{'' \<in> set (tool_line_of after)
                \<and> json_loads E (dropWhile (\<lambda>c. c \<noteq> CHR ''{'') (tool_line_of after)) = Inl y))"
proof (intro conjI impI)
  let ?err = "''Error calling LLM: '' @ exc_str e"
  from assms show d: "call_llm E w self user_message (turn_prompt self) = (?err, w1)"
    by (rule call_llm_failure)
  {
    assume "\<not> str_contains TOOL_CALL (exc_str e)"
    then have "\<not> str_contains TOOL_CALL ?err" unfolding no_marker_in_error_text .
    then have "parse_tool_call (json_loads E) ?err = Inr None"
      by (simp add: parse_tool_call_def)
    with d show "process_message E w self user_message
        = (Inr ?err, commit self user_message ?err, w1)"
      by (rule process_message_direct)
  }
  {
    assume len: "\<forall>before after x.
            split_once TOOL_CALL ?err = Some (before, after) \<longrightarrow>
            CHR ''{'' \<in> set (tool_line_of after) \<longrightarrow>
            json_loads E (dropWhile (\<lambda>c. c \<noteq> CHR ''{'') (tool_line_of after)) = Inl x \<longrightarrow>
            exc_class x = JSONDecodeError"
    have "\<exists>r. parse_tool_call (json_loads E) ?err = Inr r"
    proof (cases "parse_tool_call (json_loads E) ?err")
      case (Inl z)
      then obtain before after where "exc_class z \<noteq> JSONDecodeError"
        and "split_once TOOL_CALL ?err = Some (before, after)"
        and "CHR ''{'' \<in> set (tool_line_of after)"
        and "json_loads E (dropWhile (\<lambda>c. c \<noteq> CHR ''{'') (tool_line_of after)) = Inl z"
        unfolding parse_tool_call_raises_iff by blast
      with len show ?thesis by blast
    next
      case (Inr r)
      then show ?thesis by blast
    qed
    then obtain r where r: "parse_tool_call (json_loads E) ?err = Inr r" by blast
    from process_message_completes[OF d r] r
    show "\<exists>answer w'.
             process_message E w self user_message
               = (Inr answer, commit self user_message answer, w')
             \<and> (answer = ?err
                 \<or> (\<exists>tool_name arguments tool_result w2.
                       parse_tool_call (json_loads E) ?err = Inr (Some (tool_name, arguments))
                       \<and> call_mcp_tool E w1 tool_name arguments = (tool_result, w2)
                       \<and> call_llm E w2 self (follow_up_prompt_of tool_name tool_result)
                             (turn_prompt self)
                           = (answer, w')))"
      by blast
  }
  show "process_message E w self user_message = (Inl y, self', w') \<longleftrightarrow>
          self' = self \<and> w' = w1 \<and> exc_class y \<noteq> JSONDecodeError
          \<and> (\<exists>before after.
                split_once TOOL_CALL ?err = Some (before, after)
                \<and> CHR ''{'' \<in> set (tool_line_of after)
                \<and> json_loads E (dropWhile (\<lambda>c. c \<noteq> CHR ''{'') (tool_line_of after)) = Inl y)"
    unfolding process_message_raises_iff[OF d] parse_tool_call_raises_iff by blast
qed

theorem llm_failure_is_answered_witness:
  "chat deep_env \<lparr>script = [], backend_calls = []\<rparr> (model_name sample_client)
       (llm_messages sample_client ''List my S3 buckets'' (turn_prompt sample_client))
     = (Inl (PyExc OtherError ''Failed to connect to Ollama''), \<lparr>script = [], backend_calls = []\<rparr>)
   \<and> \<not> str_contains TOOL_CALL ''Failed to connect to Ollama''
   \<and> call_llm deep_env \<lparr>script = [], backend_calls = []\<rparr> sample_client
       ''List my S3 buckets'' (turn_prompt sample_client)
     = (''Error calling LLM: Failed to connect to Ollama'', \<lparr>script = [], backend_calls = []\<rparr>)
   \<and> process_message deep_env \<lparr>script = [], backend_calls = []\<rparr> sample_client
       ''List my S3 buckets''
     = (Inr ''Error calling LLM: Failed to connect to Ollama'',
        commit sample_client ''List my S3 buckets'' ''Error calling LLM: Failed to connect to Ollama'',
        \<lparr>script = [], backend_calls = []\<rparr>)
   \<and> chat deep_env
       \<lparr>script = [Inl (PyExc OtherError ''TOOL_CALL: list_s3_buckets {}  ''),
                  Inr ''You have two buckets.''],
        backend_calls = []\<rparr>
       (model_name sample_client)
       (llm_messages sample_client ''List my S3 buckets'' (turn_prompt sample_client))
     = (Inl (PyExc OtherError ''TOOL_CALL: list_s3_buckets {}  ''),
        \<lparr>script = [Inr ''You have two buckets.''], backend_calls = []\<rparr>)
   \<and> json_loads deep_env
       (dropWhile (\<lambda>c. c \<noteq> CHR ''{'') (tool_line_of '' list_s3_buckets {}  ''))
     = Inr (JObj [])
   \<and> (\<exists>answer w'.
         process_message deep_env
           \<lparr>script = [Inl (PyExc OtherError ''TOOL_CALL: list_s3_buckets {}  ''),
                      Inr ''You have two buckets.''],
            backend_calls = []\<rparr>
           sample_client ''List my S3 buckets''
         = (Inr answer, commit sample_client ''List my S3 buckets'' answer, w'))"
proof -
  let ?w = "\<lparr>script = [], backend_calls = []\<rparr>"
  let ?e = "PyExc OtherError ''Failed to connect to Ollama''"
  let ?v = "\<lparr>script = [Inl (PyExc OtherError ''TOOL_CALL: list_s3_buckets {}  ''),
                  Inr ''You have two buckets.''],
        backend_calls = []\<rparr>"
  let ?v1 = "\<lparr>script = [Inr ''You have two buckets.''], backend_calls = []\<rparr>"
  let ?f = "PyExc OtherError ''TOOL_CALL: list_s3_buckets {}  ''"
  have c: "chat deep_env ?w (model_name sample_client)
       (llm_messages sample_client ''List my S3 buckets'' (turn_prompt sample_client))
     = (Inl ?e, ?w)"
    by (simp add: deep_env_def scripted_chat_def)
  have m: "\<not> str_contains TOOL_CALL ''Failed to connect to Ollama''"
    by (simp add: TOOL_CALL_def)
  note t = llm_failure_is_answered[OF c]
  from t[THEN conjunct1] have 1: "call_llm deep_env ?w sample_client ''List my S3 buckets''
        (turn_prompt sample_client)
      = (''Error calling LLM: Failed to connect to Ollama'', ?w)"
    by simp
  from t[THEN conjunct2, THEN conjunct1] m have 2: "process_message deep_env ?w sample_client ''List my S3 buckets''
     = (Inr ''Error calling LLM: Failed to connect to Ollama'',
        commit sample_client ''List my S3 buckets'' ''Error calling LLM: Failed to connect to Ollama'',
        ?w)"
    by simp
  have c': "chat deep_env ?v (model_name sample_client)
       (llm_messages sample_client ''List my S3 buckets'' (turn_prompt sample_client))
     = (Inl ?f, ?v1)"
    by (simp add: deep_env_def scripted_chat_def)
  have s: "split_once TOOL_CALL (''Error calling LLM: '' @ exc_str ?f)
      = Some (''Error calling LLM: '', '' list_s3_buckets {}  '')"
    by (simp add: TOOL_CALL_def)
  have l: "tool_line_of '' list_s3_buckets {}  '' = ''list_s3_buckets {}''"
    by (simp add: str_eval)
  have j: "json_loads deep_env
       (dropWhile (\<lambda>c. c \<noteq> CHR ''{'') (tool_line_of '' list_s3_buckets {}  ''))
     = Inr (JObj [])"
    by (simp add: l deep_env_def deep_loads_def sample_loads_def)
  have h: "\<forall>before after x.
      split_once TOOL_CALL (''Error calling LLM: '' @ exc_str ?f) = Some (before, after) \<longrightarrow>
      CHR ''{'' \<in> set (tool_line_of after) \<longrightarrow>
      json_loads deep_env (dropWhile (\<lambda>c. c \<noteq> CHR ''{'') (tool_line_of after)) = Inl x \<longrightarrow>
      exc_class x = JSONDecodeError"
  proof (intro allI impI)
    fix before after x
    assume "split_once TOOL_CALL (''Error calling LLM: '' @ exc_str ?f) = Some (before, after)"
    with s have "after = '' list_s3_buckets {}  ''" by (simp only: option.inject prod.inject)
    moreover assume "json_loads deep_env
        (dropWhile (\<lambda>c. c \<noteq> CHR ''{'') (tool_line_of after)) = Inl x"
    ultimately have "Inr (JObj []) = (Inl x :: py_exception + json)" by (simp only: j)
    then show "exc_class x = JSONDecodeError" by simp
  qed
  note g = llm_failure_is_answered[OF c', THEN conjunct2, THEN conjunct2, THEN conjunct1, THEN mp, OF h]
  from g obtain answer w' where
    "process_message deep_env ?v sample_client ''List my S3 buckets''
       = (Inr answer, commit sample_client ''List my S3 buckets'' answer, w')"
    by (elim exE conjE)
  then have 3: "\<exists>answer w'.
         process_message deep_env ?v sample_client ''List my S3 buckets''
         = (Inr answer, commit sample_client ''List my S3 buckets'' answer, w')"
    by (intro exI)
  from c m 1 2 c' j 3 show ?thesis by (intro conjI)
qed

lemma call_mcp_tool_world:
  "snd (call_mcp_tool E w tool_name arguments) = snd (call_tool E w tool_name arguments)"
  by (simp add: call_mcp_tool_def split: prod.splits sum.splits)

text \<open>
  C10: for the marker followed by whitespace alone, or by nothing, the parser returns
  a pair: the empty tool name and the empty dictionary. A turn whose decision is such a
  text calls the backend with the empty name and the empty dictionary, and goes on to
  the narration call with what \<^verbatim>\<open>call_mcp_tool\<close> made of the outcome.
\<close>

theorem marker_alone_is_a_tool_call:
  assumes "list_all py_isspace ws"
  shows "parse_tool_call loads (TOOL_CALL @ ws) = Inr (Some ([], JObj []))
     \<and> (call_llm E w self user_message (turn_prompt self) = (TOOL_CALL @ ws, w1) \<longrightarrow>
          process_message E w self user_message
            = (case call_mcp_tool E w1 [] (JObj []) of
                 (tool_result, w2) \<Rightarrow>
                   (case call_llm E w2 self (follow_up_prompt_of [] tool_result)
                           (turn_prompt self) of
                      (final_response, w3) \<Rightarrow>
                        (Inr final_response, commit self user_message final_response, w3)))
          \<and> snd (call_mcp_tool E w1 [] (JObj [])) = snd (call_tool E w1 [] (JObj [])))"
proof -
  have "split_once TOOL_CALL (TOOL_CALL @ ws) = Some ([], ws)"
    by (rule split_once_prefix)
  moreover from assms have "tool_line_of ws = []" by (rule tool_line_of_spaces)
  ultimately have p: "parse_tool_call loads (TOOL_CALL @ ws) = Inr (Some ([], JObj []))" for loads
    by (simp add: parse_tool_call_eq parse_line_def)
  have "call_llm E w self user_message (turn_prompt self) = (TOOL_CALL @ ws, w1) \<longrightarrow>
          process_message E w self user_message
            = (case call_mcp_tool E w1 [] (JObj []) of
                 (tool_result, w2) \<Rightarrow>
                   (case call_llm E w2 self (follow_up_prompt_of [] tool_result)
                           (turn_prompt self) of
                      (final_response, w3) \<Rightarrow>
                        (Inr final_response, commit self user_message final_response, w3)))"
    using p[of "json_loads E"]
    by (auto simp: process_message_tool split: prod.splits)
  with p show ?thesis by (simp add: call_mcp_tool_world)
qed

theorem marker_alone_is_a_tool_call_witness:
  "list_all py_isspace ('' '' @ [nl])
   \<and> parse_tool_call sample_loads (TOOL_CALL @ '' '' @ [nl]) = Inr (Some ([], JObj []))
   \<and> process_message sample_env
       \<lparr>script = [Inr (TOOL_CALL @ '' '' @ [nl]), Inr ''No tool was named.''], backend_calls = []\<rparr>
       sample_client ''What can you do?''
     = (Inr ''No tool was named.'',
        commit sample_client ''What can you do?'' ''No tool was named.'',
        \<lparr>script = [], backend_calls = [([], JObj [])]\<rparr>)"
proof -
  let ?ws = "'' '' @ [nl]"
  let ?w = "\<lparr>script = [Inr (TOOL_CALL @ ?ws), Inr ''No tool was named.''], backend_calls = []\<rparr>"
  let ?w1 = "\<lparr>script = [Inr ''No tool was named.''], backend_calls = []\<rparr>"
  let ?w2 = "\<lparr>script = [Inr ''No tool was named.''], backend_calls = [([], JObj [])]\<rparr>"
  let ?w3 = "\<lparr>script = [], backend_calls = [([], JObj [])]\<rparr>"
  have s: "list_all py_isspace ?ws" by (simp add: py_isspace_def nl_def)
  have d: "call_llm sample_env ?w sample_client ''What can you do?'' (turn_prompt sample_client)
      = (TOOL_CALL @ ?ws, ?w1)"
    by (simp add: env_eval)
  have t: "call_mcp_tool sample_env ?w1 [] (JObj []) = (''Error calling tool : Unknown tool: '', ?w2)"
    by (simp add: call_mcp_tool_def env_eval tool_error_text_def)
  have n: "call_llm sample_env ?w2 sample_client
       (follow_up_prompt_of [] ''Error calling tool : Unknown tool: '') (turn_prompt sample_client)
      = (''No tool was named.'', ?w3)"
    by (simp add: env_eval)
  note m = marker_alone_is_a_tool_call[OF s]
  have 1: "parse_tool_call sample_loads (TOOL_CALL @ ?ws) = Inr (Some ([], JObj []))"
    by (rule m[of sample_loads, THEN conjunct1])
  from m[of sample_loads sample_env ?w sample_client "''What can you do?''" ?w1] d
  have "process_message sample_env ?w sample_client ''What can you do?''
      = (case call_mcp_tool sample_env ?w1 [] (JObj []) of
           (tool_result, w2) \<Rightarrow>
             (case call_llm sample_env w2 sample_client (follow_up_prompt_of [] tool_result)
                     (turn_prompt sample_client) of
                (final_response, w3) \<Rightarrow>
                  (Inr final_response, commit sample_client ''What can you do?'' final_response, w3)))"
    by simp
  with t n have 2: "process_message sample_env ?w sample_client ''What can you do?''
      = (Inr ''No tool was named.'',
         commit sample_client ''What can you do?'' ''No tool was named.'', ?w3)"
    by simp
  from s 1 2 show ?thesis by (intro conjI)
qed

end
